theory Spec2Isabelle
  imports Main
begin

section \<open>Exact decimal codec\<close>

subsection \<open>Formatting verbs of \<open>fmt.Sprintf\<close>\<close>

text \<open>
  Go strings are byte sequences; \<open>string\<close> (a list of 8-bit characters) is used for them.
  \<open>units\<close> is an \<open>int64\<close> and \<open>nano\<close> an \<open>int32\<close>; both are modelled as \<open>int\<close>, and the
  theorems state the range they hold for. No arithmetic is done on either value, so nothing
  can wrap around.
\<close>

definition digitChar :: "nat \<Rightarrow> char" where
  "digitChar d = ''0123456789'' ! d"

definition isDigit :: "char \<Rightarrow> bool" where
  "isDigit c = (c \<in> set ''0123456789'')"

definition digitVal :: "char \<Rightarrow> nat" where
  "digitVal c = of_char c - 48"

text \<open>The decimal digits of a natural number, most significant first (no leading zero).\<close>

fun fmtNat :: "nat \<Rightarrow> string" where
  "fmtNat n = (if n < 10 then [digitChar n] else fmtNat (n div 10) @ [digitChar (n mod 10)])"

declare fmtNat.simps [simp del]

text \<open>The verb \<open>%d\<close>: a minus sign for a negative value, then the digits.\<close>

definition fmtD :: "int \<Rightarrow> string" where
  "fmtD i = (if i < 0 then CHR ''-'' # fmtNat (nat (- i)) else fmtNat (nat i))"

definition padZeros :: "nat \<Rightarrow> string \<Rightarrow> string" where
  "padZeros w s = replicate (w - length s) (CHR ''0'') @ s"

text \<open>
  The verb \<open>%09d\<close>: zero padding to width 9; the sign of a negative value takes one of the
  nine columns and comes before the zeros.
\<close>

definition fmtD09 :: "int \<Rightarrow> string" where
  "fmtD09 i = (if i < 0 then CHR ''-'' # padZeros 8 (fmtNat (nat (- i)))
               else padZeros 9 (fmtNat (nat i)))"

subsection \<open>\<open>money.ConvertMoneyValue\<close>\<close>

text \<open>
  The loop \<open>for len(nanoStr) > 0 && nanoStr[len(nanoStr)-1] == '0' { nanoStr = nanoStr[:len(nanoStr)-1] }\<close>.
\<close>

function stripTrailingZeros :: "string \<Rightarrow> string" where
  "stripTrailingZeros nanoStr =
     (if length nanoStr > 0 \<and> last nanoStr = CHR ''0''
      then stripTrailingZeros (butlast nanoStr) else nanoStr)"
  by pat_completeness auto
termination
  by (relation "measure length") auto

declare stripTrailingZeros.simps [simp del]

definition ConvertMoneyValue :: "int \<Rightarrow> int \<Rightarrow> string" where
  "ConvertMoneyValue units nano =
     (if nano = 0 then fmtD units
      else let nanoStr = stripTrailingZeros (fmtD09 nano)
           in if length nanoStr = 0 then fmtD units
              else fmtD units @ ''.'' @ nanoStr)"

text \<open>
  The encoder in the words of the specification: the integer alone for a zero fraction,
  otherwise the fraction padded to nine digits with its trailing zeros removed, after the
  integer and a point when a digit remains.
\<close>

definition encode_spec :: "int \<Rightarrow> nat \<Rightarrow> string" where
  "encode_spec units nano =
     (if nano = 0 then fmtD units
      else let padded = replicate (9 - length (fmtNat nano)) (CHR ''0'') @ fmtNat nano;
               fraction = rev (dropWhile (\<lambda>c. c = CHR ''0'') (rev padded))
           in if fraction \<noteq> [] then fmtD units @ [CHR ''.''] @ fraction else fmtD units)"

subsection \<open>\<open>strings.TrimSpace\<close>, \<open>strings.Index\<close> and \<open>strconv.ParseInt\<close>\<close>

definition asciiSpace :: "char \<Rightarrow> bool" where
  "asciiSpace c = (c \<in> set [CHR 0x09, CHR 0x0A, CHR 0x0B, CHR 0x0C, CHR 0x0D, CHR 0x20])"

text \<open>
  The UTF-8 encodings of the white-space runes above U+007F (\<open>unicode.IsSpace\<close>): U+0085,
  U+00A0, U+1680, U+2000 to U+200A, U+2028, U+2029, U+202F, U+205F and U+3000.
\<close>

definition unicodeSpaces :: "string list" where
  "unicodeSpaces =
     [[CHR 0xC2, CHR 0x85], [CHR 0xC2, CHR 0xA0], [CHR 0xE1, CHR 0x9A, CHR 0x80]]
     @ map (\<lambda>b. [CHR 0xE2, CHR 0x80, b])
         [CHR 0x80, CHR 0x81, CHR 0x82, CHR 0x83, CHR 0x84, CHR 0x85, CHR 0x86, CHR 0x87,
          CHR 0x88, CHR 0x89, CHR 0x8A, CHR 0xA8, CHR 0xA9, CHR 0xAF]
     @ [[CHR 0xE2, CHR 0x81, CHR 0x9F], [CHR 0xE3, CHR 0x80, CHR 0x80]]"

text \<open>The width in bytes of the white-space rune a string starts (ends) with, 0 if none.\<close>

definition leadingSpace :: "string \<Rightarrow> nat" where
  "leadingSpace s =
     (case s of [] \<Rightarrow> 0
      | c # _ \<Rightarrow> if asciiSpace c then 1
                 else (case find (\<lambda>u. take (length u) s = u) unicodeSpaces of
                         Some u \<Rightarrow> length u | None \<Rightarrow> 0))"

definition trailingSpace :: "string \<Rightarrow> nat" where
  "trailingSpace s =
     (if s = [] then 0
      else if asciiSpace (last s) then 1
      else (case find (\<lambda>u. drop (length s - length u) s = u) unicodeSpaces of
              Some u \<Rightarrow> length u | None \<Rightarrow> 0))"

function TrimLeft :: "string \<Rightarrow> string" where
  "TrimLeft s = (if leadingSpace s = 0 then s else TrimLeft (drop (leadingSpace s) s))"
  by pat_completeness auto
termination
  by (relation "measure length") (auto simp: leadingSpace_def split: list.splits)

function TrimRight :: "string \<Rightarrow> string" where
  "TrimRight s = (if trailingSpace s = 0 then s
                  else TrimRight (take (length s - trailingSpace s) s))"
  by pat_completeness auto
termination
  by (relation "measure length") (auto simp: trailingSpace_def split: if_splits)

declare TrimLeft.simps [simp del] TrimRight.simps [simp del]

definition TrimSpace :: "string \<Rightarrow> string" where
  "TrimSpace s = TrimRight (TrimLeft s)"

text \<open>\<open>strings.Index(s, ".")\<close>: the index of the first point, or \<open>-1\<close>.\<close>

fun IndexDot :: "string \<Rightarrow> int" where
  "IndexDot [] = - 1"
| "IndexDot (c # cs) =
     (if c = CHR ''.'' then 0 else (let i = IndexDot cs in if i = - 1 then - 1 else i + 1))"

definition digitsVal :: "string \<Rightarrow> nat" where
  "digitsVal s = foldl (\<lambda>acc c. acc * 10 + digitVal c) 0 s"

text \<open>
  \<open>strconv.ParseInt(s, 10, bitSize)\<close>: an optional sign, then one or more decimal digits
  (base 10 accepts no underscore and no prefix); a value outside the signed range of
  \<open>bitSize\<close> bits is a range error. Every caller here discards the value that comes with an
  error, so an error is \<open>None\<close>.
\<close>

definition ParseInt :: "string \<Rightarrow> nat \<Rightarrow> int option" where
  "ParseInt s bitSize =
     (if s = [] then None
      else let neg = (hd s = CHR ''-'');
               s0 = (if hd s = CHR ''+'' \<or> hd s = CHR ''-'' then tl s else s)
           in if s0 = [] \<or> \<not> list_all isDigit s0 then None
              else let un = digitsVal s0; cutoff = (2::nat) ^ (bitSize - 1)
                   in if \<not> neg \<and> un \<ge> cutoff then None
                      else if neg \<and> un > cutoff then None
                      else Some (if neg then - int un else int un))"

subsection \<open>\<open>arch.parsePriceString\<close>\<close>

record Quotation =
  Units :: int
  Nano :: int

definition MaxNanoDigits :: nat where
  "MaxNanoDigits = 9"

text \<open>The loop \<open>for len(fractionStr) < 9 { fractionStr += "0" }\<close>.\<close>

function padFraction :: "string \<Rightarrow> string" where
  "padFraction fractionStr =
     (if length fractionStr < 9 then padFraction (fractionStr @ ''0'') else fractionStr)"
  by pat_completeness auto
termination
  by (relation "measure (\<lambda>s. 9 - length s)") auto

declare padFraction.simps [simp del]

text \<open>
  Slice expressions \<open>s[:hi]\<close> and \<open>s[lo:]\<close> panic when the bound is outside \<open>0..len(s)\<close>;
  \<open>None\<close> is the panic.
\<close>

definition sliceTo :: "string \<Rightarrow> int \<Rightarrow> string option" where
  "sliceTo s hi = (if 0 \<le> hi \<and> hi \<le> int (length s) then Some (take (nat hi) s) else None)"

definition sliceFrom :: "string \<Rightarrow> int \<Rightarrow> string option" where
  "sliceFrom s lo = (if 0 \<le> lo \<and> lo \<le> int (length s) then Some (drop (nat lo) s) else None)"

text \<open>
  The function returns a pointer to a fresh \<open>Quotation\<close> on every path and has no error
  result; the only way it could fail is a panic of a slice expression, which is the value
  \<open>None\<close> here.
\<close>

definition parsePriceString :: "string \<Rightarrow> Quotation option" where
  "parsePriceString priceStr0 =
     (let priceStr = TrimSpace priceStr0;
          dotIndex = IndexDot priceStr
      in if dotIndex = - 1 then
           (case ParseInt priceStr 64 of
              Some units \<Rightarrow> Some \<lparr>Units = units, Nano = 0\<rparr>
            | None \<Rightarrow> Some \<lparr>Units = 0, Nano = 0\<rparr>)
         else
           (case sliceTo priceStr dotIndex of None \<Rightarrow> None | Some unitsStr \<Rightarrow>
           (case sliceFrom priceStr (dotIndex + 1) of None \<Rightarrow> None | Some fractionStr \<Rightarrow>
           (case ParseInt unitsStr 64 of
              None \<Rightarrow> Some \<lparr>Units = 0, Nano = 0\<rparr>
            | Some units \<Rightarrow>
                if length fractionStr = 0 then Some \<lparr>Units = units, Nano = 0\<rparr>
                else
                  let padded = padFraction fractionStr
                  in (case (if length padded > MaxNanoDigits
                            then sliceTo padded (int MaxNanoDigits) else Some padded) of
                        None \<Rightarrow> None
                      | Some fractionStr9 \<Rightarrow>
                          (case ParseInt fractionStr9 32 of
                             None \<Rightarrow> Some \<lparr>Units = units, Nano = 0\<rparr>
                           | Some nano \<Rightarrow> Some \<lparr>Units = units, Nano = nano\<rparr>))))))"

text \<open>
  The nine bytes of a fractional part that reach \<open>strconv.ParseInt\<close>: the part padded with
  zeros to nine bytes, then cut after the ninth.
\<close>

definition cutFraction :: "string \<Rightarrow> string" where
  "cutFraction f = take 9 (f @ replicate (9 - length f) (CHR ''0''))"

section \<open>Configuration and the incremental fetch driver\<close>

subsection \<open>Time and durations\<close>

text \<open>
  A \<open>time.Time\<close> is an instant; it is modelled as the number of nanoseconds since the zero
  \<open>time.Time\<close> (January 1 of year 1, 00:00:00 UTC), so that \<open>IsZero\<close> is equality with 0,
  \<open>Before\<close> and \<open>After\<close> are \<open><\<close> and \<open>>\<close>, and \<open>Add\<close> is addition. \<open>Add\<close> saturates only at
  the ends of the representable range, some 292 billion years from the zero time, which no
  configured date, database timestamp or clock reading comes near; the model has no bound.

  A \<open>time.Duration\<close> is an \<open>int64\<close> count of nanoseconds, and the product of two durations
  wraps around: \<open>wrap64\<close> is the two's complement reduction.
\<close>

type_synonym time = int

definition zeroTime :: time where
  "zeroTime = 0"

definition wrap64 :: "int \<Rightarrow> int" where
  "wrap64 x = (x + 2 ^ 63) mod 2 ^ 64 - 2 ^ 63"

definition Minute :: int where
  "Minute = 60000000000"

definition Hour :: int where
  "Hour = 60 * Minute"

text \<open>\<open>t.Sub(u)\<close> saturates at the largest and the smallest duration.\<close>

definition Sub :: "time \<Rightarrow> time \<Rightarrow> int" where
  "Sub t u = (if t - u > 2 ^ 63 - 1 then 2 ^ 63 - 1
              else if t - u < - (2 ^ 63) then - (2 ^ 63) else t - u)"

subsection \<open>\<open>pkg/config\<close>: constants\<close>

definition DefaultUpdateThreshold :: int where
  "DefaultUpdateThreshold = 1 * Minute"

definition MinutesInHour :: int where "MinutesInHour = 60"
definition HoursInDay :: int where "HoursInDay = 24"
definition DaysInWeek :: int where "DaysInWeek = 7"
definition DaysInMonth :: int where "DaysInMonth = 30"
definition MinutesInDay :: int where "MinutesInDay = HoursInDay * MinutesInHour"

definition CandleInterval1Min :: string where "CandleInterval1Min = ''CANDLE_INTERVAL_1_MIN''"
definition CandleInterval2Min :: string where "CandleInterval2Min = ''CANDLE_INTERVAL_2_MIN''"
definition CandleInterval3Min :: string where "CandleInterval3Min = ''CANDLE_INTERVAL_3_MIN''"
definition CandleInterval5Min :: string where "CandleInterval5Min = ''CANDLE_INTERVAL_5_MIN''"
definition CandleInterval10Min :: string where "CandleInterval10Min = ''CANDLE_INTERVAL_10_MIN''"
definition CandleInterval15Min :: string where "CandleInterval15Min = ''CANDLE_INTERVAL_15_MIN''"
definition CandleInterval30Min :: string where "CandleInterval30Min = ''CANDLE_INTERVAL_30_MIN''"
definition CandleIntervalHour :: string where "CandleIntervalHour = ''CANDLE_INTERVAL_HOUR''"
definition CandleInterval2Hour :: string where "CandleInterval2Hour = ''CANDLE_INTERVAL_2_HOUR''"
definition CandleInterval4Hour :: string where "CandleInterval4Hour = ''CANDLE_INTERVAL_4_HOUR''"
definition CandleIntervalDay :: string where "CandleIntervalDay = ''CANDLE_INTERVAL_DAY''"
definition CandleIntervalWeek :: string where "CandleIntervalWeek = ''CANDLE_INTERVAL_WEEK''"
definition CandleIntervalMonth :: string where "CandleIntervalMonth = ''CANDLE_INTERVAL_MONTH''"

definition CandleIntervalText1Min :: string where "CandleIntervalText1Min = ''1min''"
definition CandleIntervalTextHour :: string where "CandleIntervalTextHour = ''1hour''"
definition CandleIntervalTextDay :: string where "CandleIntervalTextDay = ''1day''"
definition CandleIntervalTextWeek :: string where "CandleIntervalTextWeek = ''1week''"
definition CandleIntervalTextMonth :: string where "CandleIntervalTextMonth = ''1month''"

lemmas interval_names =
  CandleInterval1Min_def CandleInterval2Min_def CandleInterval3Min_def CandleInterval5Min_def
  CandleInterval10Min_def CandleInterval15Min_def CandleInterval30Min_def CandleIntervalHour_def
  CandleInterval2Hour_def CandleInterval4Hour_def CandleIntervalDay_def CandleIntervalWeek_def
  CandleIntervalMonth_def CandleIntervalText1Min_def CandleIntervalTextHour_def
  CandleIntervalTextDay_def CandleIntervalTextWeek_def CandleIntervalTextMonth_def

subsection \<open>\<open>pkg/config\<close>: functions\<close>

text \<open>
  \<open>GetTimeUnitAndConfigKey\<close>: the atomic time unit of a resolution and the key of its row
  limit in the configuration. The durations are constant expressions.
\<close>

definition GetTimeUnitAndConfigKey :: "string \<Rightarrow> int \<times> string" where
  "GetTimeUnitAndConfigKey intervalType =
     (if intervalType = CandleInterval1Min then (Minute, CandleIntervalText1Min)
      else if intervalType = CandleInterval2Min then (Minute, CandleIntervalText1Min)
      else if intervalType = CandleInterval3Min then (Minute, CandleIntervalText1Min)
      else if intervalType = CandleInterval5Min then (Minute, CandleIntervalText1Min)
      else if intervalType = CandleInterval10Min then (Minute, CandleIntervalText1Min)
      else if intervalType = CandleInterval15Min then (Minute, CandleIntervalText1Min)
      else if intervalType = CandleInterval30Min then (Minute, CandleIntervalText1Min)
      else if intervalType = CandleIntervalHour then (Minute, CandleIntervalText1Min)
      else if intervalType = CandleInterval2Hour then (Hour, CandleIntervalTextHour)
      else if intervalType = CandleInterval4Hour then (Hour, CandleIntervalTextHour)
      else if intervalType = CandleIntervalDay then (HoursInDay * Hour, CandleIntervalTextDay)
      else if intervalType = CandleIntervalWeek
        then (DaysInWeek * HoursInDay * Hour, CandleIntervalTextWeek)
      else if intervalType = CandleIntervalMonth
        then (DaysInMonth * HoursInDay * Hour, CandleIntervalTextMonth)
      else (DefaultUpdateThreshold, CandleIntervalText1Min))"

definition GetThreshold :: "string \<Rightarrow> int" where
  "GetThreshold intervalType = fst (GetTimeUnitAndConfigKey intervalType)"

text \<open>
  The part of \<open>Config\<close> the driver reads. \<open>Limits\<close> is a \<open>map[string]int\<close>; \<open>int\<close> has 64 bits
  on the platforms the loader is built for.
\<close>

record Config =
  StartDate :: string
  Limits :: "string \<rightharpoonup> int"
  RateLimitPause :: int

definition GetIntervalLimit :: "Config \<Rightarrow> string \<Rightarrow> int" where
  "GetIntervalLimit c interval =
     (case Limits c interval of Some limit \<Rightarrow> limit | None \<Rightarrow> MinutesInDay)"

text \<open>
  What the driver takes from the clock and from package \<open>time\<close>: the three readings of
  \<open>time.Now()\<close> (in \<open>time.Since\<close>, in \<open>GetStartDate\<close> and for the end of the range), the parser
  \<open>time.Parse("2006-01-02", s)\<close> and the calendar function \<open>AddDate\<close>. They are parameters, so
  every statement below holds whatever they return.
\<close>

record env =
  nowSince :: time
  nowStart :: time
  nowTo :: time
  Parse :: "string \<Rightarrow> time option"
  AddDate :: "time \<Rightarrow> int \<Rightarrow> int \<Rightarrow> int \<Rightarrow> time"

definition GetStartDate :: "env \<Rightarrow> Config \<Rightarrow> time" where
  "GetStartDate e c =
     (if StartDate c = [] then AddDate e (nowStart e) (- 5) 0 0
      else (case Parse e (StartDate c) of
              None \<Rightarrow> AddDate e (nowStart e) (- 5) 0 0
            | Some startDate \<Rightarrow> startDate))"

definition ShouldUpdateData :: "env \<Rightarrow> time \<Rightarrow> string \<Rightarrow> bool" where
  "ShouldUpdateData e lastLoadedTime intervalType =
     (Sub (nowSince e) lastLoadedTime > GetThreshold intervalType)"

subsection \<open>\<open>storage.GetLastLoadedTime\<close>\<close>

text \<open>
  The outcome of \<open>QueryRow(...).Scan(&lastLoadedTime)\<close> for \<open>SELECT MAX(time)\<close>: an error, a
  NULL (no candle of the instrument and resolution is stored) or a timestamp.
\<close>

datatype 'e scan = ScanError 'e | ScanNull | ScanTime time

datatype 'e query_error = CandlesQueryFailed 'e

definition GetLastLoadedTime :: "'e scan \<Rightarrow> time \<times> 'e query_error option" where
  "GetLastLoadedTime r =
     (case r of
        ScanError err \<Rightarrow> (zeroTime, Some (CandlesQueryFailed err))
      | ScanNull \<Rightarrow> (zeroTime, None)
      | ScanTime t \<Rightarrow> (t, None))"

subsection \<open>\<open>data.LoadCandleData\<close>\<close>

text \<open>
  The body of the chunk loop calls \<open>LoadCandleChunk\<close> and, for a non-empty answer,
  \<open>storage.SaveCandles\<close>; an error of either leaves \<open>LoadCandleData\<close> at once. The API and the
  database are a state \<open>'s\<close> that the two calls read and change; \<open>body\<close> is their combined
  effect on one chunk, with \<open>Some\<close> error for the early return.
\<close>

datatype 'e chunk_error = ChunkLoadFailed 'e | ChunkSaveFailed 'e

definition chunkBody ::
  "('s \<Rightarrow> time \<Rightarrow> time \<Rightarrow> ('e + 'c list) \<times> 's) \<Rightarrow> ('s \<Rightarrow> 'c list \<Rightarrow> 'e option \<times> 's)
    \<Rightarrow> 's \<Rightarrow> time \<Rightarrow> time \<Rightarrow> 'e chunk_error option \<times> 's" where
  "chunkBody fetch save s currentFrom currentTo =
     (case fetch s currentFrom currentTo of
        (Inl err, s') \<Rightarrow> (Some (ChunkLoadFailed err), s')
      | (Inr candles, s') \<Rightarrow>
          if length candles > 0 then
            (case save s' candles of
               (Some err, s'') \<Rightarrow> (Some (ChunkSaveFailed err), s'')
             | (None, s'') \<Rightarrow> (None, s''))
          else (None, s'))"

text \<open>
  The loop \<open>for currentFrom.Before(to) { ... }\<close>. Its result is the list of the chunks
  \<open>(currentFrom, currentTo)\<close> the body was run on, in order, the error of the early return if
  there was one, and the final state. The loop need not end; \<open>None\<close> is the run that never
  returns.
\<close>

partial_function (option) chunkLoop ::
  "('s \<Rightarrow> time \<Rightarrow> time \<Rightarrow> 'e option \<times> 's) \<Rightarrow> int \<Rightarrow> time \<Rightarrow> 's \<Rightarrow> time
    \<Rightarrow> ((time \<times> time) list \<times> 'e option \<times> 's) option" where
  "chunkLoop body chunkSize to s currentFrom =
     (if currentFrom < to then
        (let currentTo = (if to < currentFrom + chunkSize then to else currentFrom + chunkSize)
         in (case body s currentFrom currentTo of
               (Some err, s') \<Rightarrow> Some ([(currentFrom, currentTo)], Some err, s')
             | (None, s') \<Rightarrow>
                 Option.bind (chunkLoop body chunkSize to s' currentTo)
                   (\<lambda>r. Some ((currentFrom, currentTo) # fst r, snd r))))
      else Some ([], None, s))"

text \<open>\<open>chunkSize := time.Duration(cfg.GetIntervalLimit(configKey)) * timeUnit\<close>.\<close>

definition chunkSizeFor :: "Config \<Rightarrow> string \<Rightarrow> int" where
  "chunkSizeFor c intervalType =
     (let (timeUnit, configKey) = GetTimeUnitAndConfigKey intervalType
      in wrap64 (GetIntervalLimit c configKey * timeUnit))"

definition LoadCandleData ::
  "env \<Rightarrow> ('s \<Rightarrow> time \<Rightarrow> time \<Rightarrow> 'e option \<times> 's) \<Rightarrow> Config \<Rightarrow> 's \<Rightarrow> time \<Rightarrow> string
    \<Rightarrow> ((time \<times> time) list \<times> 'e option \<times> 's) option" where
  "LoadCandleData e body c s lastLoadedTime intervalType =
     (if lastLoadedTime \<noteq> zeroTime \<and> \<not> ShouldUpdateData e lastLoadedTime intervalType
      then Some ([], None, s)
      else
        let chunkSize = chunkSizeFor c intervalType;
            from = (if lastLoadedTime = zeroTime then GetStartDate e c else lastLoadedTime);
            to = nowTo e
        in chunkLoop body chunkSize to s from)"

text \<open>
  \<open>app.ProcessInstrument\<close> up to the call of \<open>LoadCandleData\<close>: an error of
  \<open>GetLastLoadedTime\<close> returns before anything is loaded (\<open>Inl\<close>).
\<close>

definition ProcessInstrument ::
  "env \<Rightarrow> ('s \<Rightarrow> time \<Rightarrow> time \<Rightarrow> 'e option \<times> 's) \<Rightarrow> Config \<Rightarrow> 's \<Rightarrow> 'q scan \<Rightarrow> string
    \<Rightarrow> 'q query_error + ((time \<times> time) list \<times> 'e option \<times> 's) option" where
  "ProcessInstrument e body c s scanned interval =
     (case GetLastLoadedTime scanned of
        (_, Some err) \<Rightarrow> Inl err
      | (lastLoadedTime, None) \<Rightarrow> Inr (LoadCandleData e body c s lastLoadedTime interval))"

subsection \<open>What the specification asks of the chunk planner\<close>

text \<open>Each chunk ends where the next one starts.\<close>

fun chained :: "(time \<times> time) list \<Rightarrow> bool" where
  "chained (c # d # r) = (snd c = fst d \<and> chained (d # r))"
| "chained _ = True"

text \<open>
  The chunks cover \<open>[from, to)\<close> exactly: the first starts at \<open>from\<close>, the last ends at \<open>to\<close>,
  they share their boundaries, and none is empty or reversed.
\<close>

definition covers :: "(time \<times> time) list \<Rightarrow> time \<Rightarrow> time \<Rightarrow> bool" where
  "covers chunks from to =
     (chunks \<noteq> [] \<and> fst (hd chunks) = from \<and> snd (last chunks) = to \<and> chained chunks
      \<and> list_all (\<lambda>c. fst c < snd c) chunks)"

text \<open>Every chunk but the last has the length \<open>len\<close>; the last is not longer.\<close>

definition sized :: "int \<Rightarrow> (time \<times> time) list \<Rightarrow> bool" where
  "sized len chunks =
     (list_all (\<lambda>c. snd c - fst c = len) (butlast chunks)
      \<and> list_all (\<lambda>c. snd c - fst c \<le> len) chunks)"

section \<open>Partitioned store\<close>

subsection \<open>Errors\<close>

text \<open>
  A Go \<open>error\<close> that is not nil is a value of \<open>error\<close>; the interface value, which may be nil,
  is an \<open>error option\<close>. \<open>PgError\<close> is \<open>*pgconn.PgError\<close> with its \<open>Code\<close> and \<open>Message\<close>,
  \<open>OtherError\<close> any other error of the driver or the API, and \<open>Errorf site err\<close> the value of
  \<open>fmt.Errorf("...: %w", err)\<close> at the call site \<open>site\<close> (the sites stand for the message
  texts). \<open>fmt.Errorf\<close> returns an error that is not nil also when the wrapped \<open>err\<close> is nil.
\<close>

datatype site =
    InsertCandleFailed
  | CreatePartitionFailed
  | InsertAfterPartitionFailed
  | SaveDividendFailed
  | LoadDividendsFailed
  | SaveInstrumentFailed
  | ScanDividendDateFailed

datatype error =
    PgError string string
  | OtherError string
  | Errorf site "error option"

text \<open>\<open>errors.As(err, &pgErr)\<close>: the first \<open>*pgconn.PgError\<close> on the chain of wrapped errors.\<close>

fun asPgError :: "error \<Rightarrow> (string \<times> string) option" where
  "asPgError (PgError code message) = Some (code, message)"
| "asPgError (OtherError _) = None"
| "asPgError (Errorf _ None) = None"
| "asPgError (Errorf _ (Some err)) = asPgError err"

subsection \<open>Calendar time\<close>

text \<open>
  The storage layer uses a \<open>time.Time\<close> through its calendar fields only: \<open>Year\<close>, \<open>Month\<close>,
  \<open>time.Date\<close>, \<open>AddDate\<close>, \<open>Add(-time.Second)\<close> and \<open>Format\<close>. A time is given here by its
  fields in its own location (UTC for the candle times, which come from \<open>AsTime()\<close>). Go has
  no leap seconds.
\<close>

record civil =
  tYear :: int
  tMonth :: nat
  tDay :: nat
  tHour :: nat
  tMinute :: nat
  tSecond :: nat
  tNanosecond :: nat

definition isLeap :: "int \<Rightarrow> bool" where
  "isLeap y = (y mod 4 = 0 \<and> (y mod 100 \<noteq> 0 \<or> y mod 400 = 0))"

definition daysIn :: "int \<Rightarrow> nat \<Rightarrow> nat" where
  "daysIn y m =
     (if m = 2 then (if isLeap y then 29 else 28)
      else if m = 4 \<or> m = 6 \<or> m = 9 \<or> m = 11 then 30 else 31)"

definition validCivil :: "civil \<Rightarrow> bool" where
  "validCivil t =
     (1 \<le> tMonth t \<and> tMonth t \<le> 12 \<and> 1 \<le> tDay t \<and> tDay t \<le> daysIn (tYear t) (tMonth t)
      \<and> tHour t < 24 \<and> tMinute t < 60 \<and> tSecond t < 60 \<and> tNanosecond t < 1000000000)"

text \<open>
  \<open>time.Date(year, month, 1, 0, 0, 0, 0, time.UTC)\<close>. A month outside 1..12 is normalised
  into the year, as \<open>AddDate\<close> relies on.
\<close>

definition DateFirst :: "int \<Rightarrow> int \<Rightarrow> civil" where
  "DateFirst y m =
     \<lparr>tYear = y + (m - 1) div 12, tMonth = nat ((m - 1) mod 12 + 1), tDay = 1,
      tHour = 0, tMinute = 0, tSecond = 0, tNanosecond = 0\<rparr>"

text \<open>\<open>t.AddDate(0, 1, 0)\<close> for a \<open>t\<close> that is the first instant of a month.\<close>

definition AddMonthFirst :: "civil \<Rightarrow> civil" where
  "AddMonthFirst t = DateFirst (tYear t) (int (tMonth t) + 1)"

text \<open>\<open>t.Add(-time.Second)\<close> on the calendar fields.\<close>

definition AddMinusSecond :: "civil \<Rightarrow> civil" where
  "AddMinusSecond t =
     (if tSecond t > 0 then t\<lparr>tSecond := tSecond t - 1\<rparr>
      else if tMinute t > 0 then t\<lparr>tMinute := tMinute t - 1, tSecond := 59\<rparr>
      else if tHour t > 0 then t\<lparr>tHour := tHour t - 1, tMinute := 59, tSecond := 59\<rparr>
      else if tDay t > 1 then t\<lparr>tDay := tDay t - 1, tHour := 23, tMinute := 59, tSecond := 59\<rparr>
      else if tMonth t > 1
        then t\<lparr>tMonth := tMonth t - 1, tDay := daysIn (tYear t) (tMonth t - 1),
               tHour := 23, tMinute := 59, tSecond := 59\<rparr>
      else t\<lparr>tYear := tYear t - 1, tMonth := 12, tDay := 31,
             tHour := 23, tMinute := 59, tSecond := 59\<rparr>)"

text \<open>
  \<open>Format("2006-01-02 15:04:05")\<close> writes the fields down to the second; the timestamp
  PostgreSQL reads back from the text is the time without its sub-second part.
\<close>

definition FormatSeconds :: "civil \<Rightarrow> civil" where
  "FormatSeconds t = t\<lparr>tNanosecond := 0\<rparr>"

text \<open>The order of timestamps: the order of the calendar fields, most significant first.\<close>

fun lexLess :: "int list \<Rightarrow> int list \<Rightarrow> bool" where
  "lexLess (x # xs) (y # ys) = (x < y \<or> (x = y \<and> lexLess xs ys))"
| "lexLess _ _ = False"

definition civilFields :: "civil \<Rightarrow> int list" where
  "civilFields t = [tYear t, int (tMonth t), int (tDay t), int (tHour t), int (tMinute t),
               int (tSecond t), int (tNanosecond t)]"

definition before :: "civil \<Rightarrow> civil \<Rightarrow> bool" where
  "before a b = lexLess (civilFields a) (civilFields b)"

subsection \<open>Statements and the connection pool\<close>

text \<open>
  The statements \<open>SaveCandles\<close> and \<open>CreatePartition\<close> send: the candle upsert with its eight
  arguments (figi, time, the four prices as decimal texts, volume, interval type), and
  \<open>CREATE TABLE IF NOT EXISTS name PARTITION OF candles FOR VALUES FROM (lo) TO (hi)\<close>.
\<close>

datatype stmt =
    UpsertCandle string civil string string string string int string
  | CreatePartitionOf string civil civil

text \<open>
  The database is a state \<open>'db\<close> with a function \<open>run\<close> that executes a statement: it answers
  with an error or none and a new state. The pool records the statements sent, in order.
\<close>

record 'db pool =
  conn :: 'db
  issued :: "stmt list"

definition Exec :: "('db \<Rightarrow> stmt \<Rightarrow> error option \<times> 'db) \<Rightarrow> 'db pool \<Rightarrow> stmt \<Rightarrow> error option \<times> 'db pool" where
  "Exec run p q = (case run (conn p) q of (err, db') \<Rightarrow> (err, \<lparr>conn = db', issued = issued p @ [q]\<rparr>))"

subsection \<open>\<open>storage.CreatePartition\<close>\<close>

definition monthStartOf :: "civil \<Rightarrow> civil" where
  "monthStartOf t = DateFirst (tYear t) (int (tMonth t))"

definition monthEndOf :: "civil \<Rightarrow> civil" where
  "monthEndOf t = AddMinusSecond (AddMonthFirst (DateFirst (tYear t) (int (tMonth t))))"

text \<open>\<open>fmt.Sprintf("candles_%d_%02d", t.Year(), t.Month())\<close>.\<close>

definition partitionNameOf :: "civil \<Rightarrow> string" where
  "partitionNameOf t = ''candles_'' @ fmtD (tYear t) @ ''_'' @ padZeros 2 (fmtD (int (tMonth t)))"

definition partitionStmt :: "civil \<Rightarrow> stmt" where
  "partitionStmt t =
     CreatePartitionOf (partitionNameOf t) (FormatSeconds (monthStartOf t))
       (FormatSeconds (monthEndOf t))"

definition CreatePartition ::
  "('db \<Rightarrow> stmt \<Rightarrow> error option \<times> 'db) \<Rightarrow> 'db pool \<Rightarrow> civil \<Rightarrow> error option \<times> 'db pool" where
  "CreatePartition run p t =
     (case Exec run p (partitionStmt t) of
        (Some err, p') \<Rightarrow> (Some (Errorf CreatePartitionFailed (Some err)), p')
      | (None, p') \<Rightarrow> (None, p'))"

text \<open>
  PostgreSQL range partitioning: the bound after \<open>FROM\<close> is inclusive and the bound after \<open>TO\<close>
  is exclusive. A row with the timestamp \<open>ts\<close> belongs to the partition when this holds.
\<close>

definition inRange :: "civil \<Rightarrow> civil \<Rightarrow> civil \<Rightarrow> bool" where
  "inRange lo hi ts = (\<not> before ts lo \<and> before ts hi)"

definition inCreatedPartition :: "civil \<Rightarrow> civil \<Rightarrow> bool" where
  "inCreatedPartition t ts =
     (case partitionStmt t of
        CreatePartitionOf _ lo hi \<Rightarrow> inRange lo hi ts
      | _ \<Rightarrow> False)"

text \<open>The calendar month of \<open>t\<close>, as the specification has it: from its first instant up to, not including, the first instant of the next month.\<close>

definition inMonthOf :: "civil \<Rightarrow> civil \<Rightarrow> bool" where
  "inMonthOf t ts = (\<not> before ts (monthStartOf t) \<and> before ts (AddMonthFirst (monthStartOf t)))"

subsection \<open>\<open>storage.SaveCandles\<close>\<close>

text \<open>
  A \<open>pb.HistoricCandle\<close>. The getters used by \<open>SaveCandles\<close> read a missing price as the zero
  quotation.
\<close>

record HistoricCandle =
  CandleTime :: civil
  Open :: Quotation
  High :: Quotation
  Low :: Quotation
  Close :: Quotation
  Volume :: int

definition candleStmt :: "string \<Rightarrow> HistoricCandle \<Rightarrow> string \<Rightarrow> stmt" where
  "candleStmt figi candle intervalType =
     UpsertCandle figi (CandleTime candle)
       (ConvertMoneyValue (Units (Open candle)) (Nano (Open candle)))
       (ConvertMoneyValue (Units (High candle)) (Nano (High candle)))
       (ConvertMoneyValue (Units (Low candle)) (Nano (Low candle)))
       (ConvertMoneyValue (Units (Close candle)) (Nano (Close candle)))
       (Volume candle) intervalType"

text \<open>\<open>strings.Contains\<close>.\<close>

fun Contains :: "string \<Rightarrow> string \<Rightarrow> bool" where
  "Contains [] substr = (substr = [])"
| "Contains (c # s) substr = (take (length substr) (c # s) = substr \<or> Contains s substr)"

text \<open>The message of PostgreSQL in Russian, "no partition found for the row", in UTF-8.\<close>

definition russianNoPartition :: string where
  "russianNoPartition =
     [CHR 0xD0, CHR 0xB4, CHR 0xD0, CHR 0xBB, CHR 0xD1, CHR 0x8F, CHR 0x20, CHR 0xD1, CHR 0x81,
      CHR 0xD1, CHR 0x82, CHR 0xD1, CHR 0x80, CHR 0xD0, CHR 0xBE, CHR 0xD0, CHR 0xBA, CHR 0xD0,
      CHR 0xB8, CHR 0x20, CHR 0xD0, CHR 0xBD, CHR 0xD0, CHR 0xB5, CHR 0x20, CHR 0xD0, CHR 0xBD,
      CHR 0xD0, CHR 0xB0, CHR 0xD0, CHR 0xB9, CHR 0xD0, CHR 0xB4, CHR 0xD0, CHR 0xB5, CHR 0xD0,
      CHR 0xBD, CHR 0xD0, CHR 0xB0, CHR 0x20, CHR 0xD1, CHR 0x81, CHR 0xD0, CHR 0xB5, CHR 0xD0,
      CHR 0xBA, CHR 0xD1, CHR 0x86, CHR 0xD0, CHR 0xB8, CHR 0xD1, CHR 0x8F]"

text \<open>
  The \<open>switch\<close> on the \<open>PgError\<close>: the four cases that take the error for a missing partition;
  the \<open>default\<close> case is every other error.
\<close>

definition isPartitionError :: "string \<Rightarrow> string \<Rightarrow> bool" where
  "isPartitionError code message =
     (code = ''23514''
      \<or> Contains message ''no partition of relation''
      \<or> Contains message russianNoPartition
      \<or> Contains message ''partition'')"

text \<open>
  One turn of the loop over the candles: \<open>Some\<close> error is a \<open>return\<close> of that error, \<open>None\<close> goes
  on to the next candle.
\<close>

definition saveCandle ::
  "('db \<Rightarrow> stmt \<Rightarrow> error option \<times> 'db) \<Rightarrow> string \<Rightarrow> string \<Rightarrow> 'db pool \<Rightarrow> HistoricCandle
    \<Rightarrow> error option \<times> 'db pool" where
  "saveCandle run figi intervalType p candle =
     (case Exec run p (candleStmt figi candle intervalType) of
        (None, p1) \<Rightarrow> (None, p1)
      | (Some err, p1) \<Rightarrow>
          (case asPgError err of
             Some (code, message) \<Rightarrow>
               if \<not> isPartitionError code message
               then (Some (Errorf InsertCandleFailed (Some err)), p1)
               else
                 (case CreatePartition run p1 (CandleTime candle) of
                    (Some createErr, p2) \<Rightarrow>
                      (Some (Errorf CreatePartitionFailed (Some createErr)), p2)
                  | (None, p2) \<Rightarrow>
                      (case Exec run p2 (candleStmt figi candle intervalType) of
                         (Some retryErr, p3) \<Rightarrow>
                           (Some (Errorf InsertAfterPartitionFailed (Some retryErr)), p3)
                       | (None, p3) \<Rightarrow> (None, p3)))
           | None \<Rightarrow> (Some (Errorf InsertCandleFailed (Some err)), p1)))"

fun saveCandlesLoop ::
  "('db \<Rightarrow> stmt \<Rightarrow> error option \<times> 'db) \<Rightarrow> string \<Rightarrow> string \<Rightarrow> 'db pool \<Rightarrow> HistoricCandle list
    \<Rightarrow> error option \<times> 'db pool" where
  "saveCandlesLoop run figi intervalType p [] = (None, p)"
| "saveCandlesLoop run figi intervalType p (candle # candles) =
     (case saveCandle run figi intervalType p candle of
        (Some err, p') \<Rightarrow> (Some err, p')
      | (None, p') \<Rightarrow> saveCandlesLoop run figi intervalType p' candles)"

definition SaveCandles ::
  "('db \<Rightarrow> stmt \<Rightarrow> error option \<times> 'db) \<Rightarrow> 'db pool \<Rightarrow> string \<Rightarrow> HistoricCandle list \<Rightarrow> string
    \<Rightarrow> error option \<times> 'db pool" where
  "SaveCandles run p figi candles intervalType =
     (if length candles = 0 then (None, p)
      else saveCandlesLoop run figi intervalType p candles)"

subsection \<open>A small database for the examples\<close>

text \<open>
  A database that knows some instruments and holds the partitions of the candle table, each
  with its name and range. A candle of an unknown instrument violates the foreign key
  (SQLSTATE 23503); a candle whose time is in no partition is refused with the error
  PostgreSQL gives for a row without a partition (SQLSTATE 23514); creating a partition adds
  it unless one of that name exists (\<open>IF NOT EXISTS\<close>).
\<close>

record exampleDb =
  instruments :: "string list"
  partitions :: "(string \<times> civil \<times> civil) list"

definition exampleRun :: "exampleDb \<Rightarrow> stmt \<Rightarrow> error option \<times> exampleDb" where
  "exampleRun db q =
     (case q of
        UpsertCandle figi ts _ _ _ _ _ _ \<Rightarrow>
          if figi \<notin> set (instruments db)
          then (Some (PgError ''23503'' ''violates foreign key constraint''), db)
          else if list_ex (\<lambda>r. inRange (fst (snd r)) (snd (snd r)) ts) (partitions db)
          then (None, db)
          else (Some (PgError ''23514'' ''no partition of relation found for row''), db)
      | CreatePartitionOf name lo hi \<Rightarrow>
          if name \<in> set (map fst (partitions db)) then (None, db)
          else (None, db\<lparr>partitions := (name, lo, hi) # partitions db\<rparr>))"

definition examplePool :: "exampleDb pool" where
  "examplePool = \<lparr>conn = \<lparr>instruments = [''BBG004730N88''], partitions = []\<rparr>, issued = []\<rparr>"

definition quote :: "int \<Rightarrow> int \<Rightarrow> Quotation" where
  "quote u n = \<lparr>Units = u, Nano = n\<rparr>"

text \<open>Three one-minute candles: 2024-01-31 23:59:59, 2024-01-15 10:00:00 and 2024-02-15 10:00:00, UTC.\<close>

definition candleLastSecond :: HistoricCandle where
  "candleLastSecond =
     \<lparr>CandleTime = \<lparr>tYear = 2024, tMonth = 1, tDay = 31, tHour = 23, tMinute = 59, tSecond = 59,
                    tNanosecond = 0\<rparr>,
      Open = quote 272 270000000, High = quote 273 0, Low = quote 272 0,
      Close = quote 272 500000000, Volume = 100\<rparr>"

definition candleMidJanuary :: HistoricCandle where
  "candleMidJanuary =
     \<lparr>CandleTime = \<lparr>tYear = 2024, tMonth = 1, tDay = 15, tHour = 10, tMinute = 0, tSecond = 0,
                    tNanosecond = 0\<rparr>,
      Open = quote 270 0, High = quote 271 0, Low = quote 269 0,
      Close = quote 270 500000000, Volume = 250\<rparr>"

definition candleFebruary :: HistoricCandle where
  "candleFebruary =
     \<lparr>CandleTime = \<lparr>tYear = 2024, tMonth = 2, tDay = 15, tHour = 10, tMinute = 0, tSecond = 0,
                    tNanosecond = 0\<rparr>,
      Open = quote 280 0, High = quote 281 0, Low = quote 279 0,
      Close = quote 280 500000000, Volume = 300\<rparr>"

subsection \<open>\<open>storage.SaveDividend\<close> and \<open>app.ProcessInstrumentDividends\<close>\<close>

text \<open>
  A \<open>storage.Dividend\<close>; \<open>'f\<close> stands for \<open>float64\<close>, of which nothing but the value is used.
\<close>

record 'f Dividend =
  DividendFigi :: string
  PaymentDate :: time
  DeclaredDate :: "time option"
  Amount :: 'f
  DividendCurrency :: string
  YieldPercent :: "'f option"

text \<open>
  The database answers the dividend upsert with an error or none and a new state; the pool
  records the dividends sent.
\<close>

record ('db, 'f) dividendPool =
  dividendConn :: 'db
  dividendsSent :: "'f Dividend list"

text \<open>
  \<open>SaveDividend\<close> ends with \<open>return fmt.Errorf("...: %w", err)\<close> on every path, \<open>err\<close> being the
  result of \<open>Exec\<close>, nil or not.
\<close>

definition SaveDividend ::
  "('db \<Rightarrow> 'f Dividend \<Rightarrow> error option \<times> 'db) \<Rightarrow> ('db, 'f) dividendPool \<Rightarrow> 'f Dividend
    \<Rightarrow> error option \<times> ('db, 'f) dividendPool" where
  "SaveDividend run p dividend =
     (case run (dividendConn p) dividend of
        (err, db') \<Rightarrow>
          (Some (Errorf SaveDividendFailed err),
           \<lparr>dividendConn = db', dividendsSent = dividendsSent p @ [dividend]\<rparr>))"

text \<open>
  \<open>GetLastDividendDate\<close>: the zero time without an error for a failed scan or a NULL maximum;
  for a date, the date together with \<open>fmt.Errorf\<close> of the nil error. The caller drops the
  error.
\<close>

definition GetLastDividendDate :: "'e scan \<Rightarrow> time \<times> error option" where
  "GetLastDividendDate r =
     (case r of
        ScanError _ \<Rightarrow> (zeroTime, None)
      | ScanNull \<Rightarrow> (zeroTime, None)
      | ScanTime t \<Rightarrow> (t, Some (Errorf ScanDividendDateFailed None)))"

definition dividendStart :: "env \<Rightarrow> Config \<Rightarrow> 'e scan \<Rightarrow> time" where
  "dividendStart e c scanned =
     (let lastDividendDate = fst (GetLastDividendDate scanned);
          startTime = GetStartDate e c
      in if lastDividendDate \<noteq> zeroTime then AddDate e lastDividendDate 0 0 1 else startTime)"

text \<open>The loop \<open>for _, dividend := range dividends\<close> with its \<open>return\<close> on an error.\<close>

fun saveDividendsLoop ::
  "('db \<Rightarrow> 'f Dividend \<Rightarrow> error option \<times> 'db) \<Rightarrow> ('db, 'f) dividendPool \<Rightarrow> 'f Dividend list
    \<Rightarrow> error option \<times> ('db, 'f) dividendPool" where
  "saveDividendsLoop run p [] = (None, p)"
| "saveDividendsLoop run p (dividend # dividends) =
     (case SaveDividend run p dividend of
        (Some err, p') \<Rightarrow> (Some (Errorf SaveDividendFailed (Some err)), p')
      | (None, p') \<Rightarrow> saveDividendsLoop run p' dividends)"

text \<open>
  \<open>load\<close> is \<open>data.LoadDividends\<close> for the instrument: the dividends of the range, or an
  error. \<open>None\<close> as the first component of the result is the \<open>return nil\<close> of the success
  path or of the skip.
\<close>

definition ProcessInstrumentDividends ::
  "env \<Rightarrow> Config \<Rightarrow> (time \<Rightarrow> time \<Rightarrow> error + 'f Dividend list)
    \<Rightarrow> ('db \<Rightarrow> 'f Dividend \<Rightarrow> error option \<times> 'db) \<Rightarrow> ('db, 'f) dividendPool \<Rightarrow> 'e scan
    \<Rightarrow> error option \<times> ('db, 'f) dividendPool" where
  "ProcessInstrumentDividends e c load run p scanned =
     (let endTime = nowTo e;
          startTime = dividendStart e c scanned
      in if startTime > endTime then (None, p)
         else (case load startTime endTime of
                 Inl err \<Rightarrow> (Some (Errorf LoadDividendsFailed (Some err)), p)
               | Inr dividends \<Rightarrow>
                   if length dividends > 0 then saveDividendsLoop run p dividends
                   else (None, p)))"

subsection \<open>\<open>storage.SaveInstrument\<close>\<close>

text \<open>
  The instruments table: a row for each \<open>figi\<close> (the primary key), a row giving each column
  its value, \<open>None\<close> for NULL or a column the table does not have.
\<close>

datatype 'f sqlval = SqlText string | SqlInt int | SqlBool bool | SqlFloat 'f | SqlTime time

type_synonym 'f row = "string \<Rightarrow> 'f sqlval option"

type_synonym 'f instrumentsTable = "string \<rightharpoonup> 'f row"

text \<open>An expression on the right of \<open>SET column =\<close>: \<open>EXCLUDED.column\<close> or \<open>NOW()\<close>.\<close>

datatype setExpr = Excluded string | Now

text \<open>
  The row proposed for insertion: the values of the \<open>INSERT\<close> for its columns and the
  defaults of the table for the others.
\<close>

definition proposedRow :: "'f row \<Rightarrow> (string \<times> 'f sqlval) list \<Rightarrow> 'f row" where
  "proposedRow defaults columns =
     (\<lambda>c. case map_of columns c of Some v \<Rightarrow> Some v | None \<Rightarrow> defaults c)"

text \<open>\<open>ON CONFLICT (figi) DO UPDATE SET ...\<close>: the columns of the list are assigned, the others keep the value of the existing row.\<close>

definition applySet :: "time \<Rightarrow> 'f row \<Rightarrow> 'f row \<Rightarrow> (string \<times> setExpr) list \<Rightarrow> 'f row" where
  "applySet now existing excluded sets =
     (\<lambda>c. case map_of sets c of
             None \<Rightarrow> existing c
           | Some (Excluded c') \<Rightarrow> excluded c'
           | Some Now \<Rightarrow> Some (SqlTime now))"

definition upsertByFigi ::
  "'f instrumentsTable \<Rightarrow> time \<Rightarrow> string \<Rightarrow> 'f row \<Rightarrow> (string \<times> setExpr) list
    \<Rightarrow> 'f instrumentsTable" where
  "upsertByFigi tbl now figi excluded sets =
     (case tbl figi of
        None \<Rightarrow> tbl(figi \<mapsto> excluded)
      | Some existing \<Rightarrow> tbl(figi \<mapsto> applySet now existing excluded sets))"

text \<open>The defaults of the table: \<open>enabled\<close> false, \<open>created_at\<close> and \<open>updated_at\<close> now.\<close>

definition instrumentDefaults :: "time \<Rightarrow> 'f row" where
  "instrumentDefaults now =
     (\<lambda>c. if c = ''enabled'' then Some (SqlBool False)
          else if c = ''created_at'' \<or> c = ''updated_at'' then Some (SqlTime now)
          else None)"

text \<open>\<open>storage.Instrument\<close> of \<open>internal/storage/instruments.go\<close>.\<close>

record 'f Instrument =
  Figi :: string
  Ticker :: string
  Name :: string
  InstrumentType :: string
  Currency :: string
  LotSize :: int
  MinPriceIncrement :: 'f
  TradingStatus :: string
  Enabled :: bool

text \<open>
  The later \<open>storage.Instrument\<close>: the fields above and those its \<open>SaveInstrument\<close> sends
  (the struct has more fields, which \<open>SaveInstrument\<close> does not read).
\<close>

record 'f InstrumentExt = "'f Instrument" +
  Isin :: string
  ShortEnabledFlag :: bool
  IpoDate :: time
  IssueSize :: int
  Sector :: string
  RealExchange :: string
  First1MinCandleDate :: time
  First1DayCandleDate :: time
  DataSourceID :: int
  CreatedAt :: time
  UpdatedAt :: time

definition baseColumns :: "('f, 'z) Instrument_scheme \<Rightarrow> (string \<times> 'f sqlval) list" where
  "baseColumns instrument =
     [(''figi'', SqlText (Figi instrument)), (''ticker'', SqlText (Ticker instrument)),
      (''name'', SqlText (Name instrument)),
      (''instrument_type'', SqlText (InstrumentType instrument)),
      (''currency'', SqlText (Currency instrument)), (''lot_size'', SqlInt (LotSize instrument)),
      (''min_price_increment'', SqlFloat (MinPriceIncrement instrument)),
      (''trading_status'', SqlText (TradingStatus instrument)),
      (''enabled'', SqlBool (Enabled instrument))]"

definition baseSets :: "(string \<times> setExpr) list" where
  "baseSets =
     [(''ticker'', Excluded ''ticker''), (''name'', Excluded ''name''),
      (''instrument_type'', Excluded ''instrument_type''), (''currency'', Excluded ''currency''),
      (''lot_size'', Excluded ''lot_size''),
      (''min_price_increment'', Excluded ''min_price_increment''),
      (''trading_status'', Excluded ''trading_status'')]"

text \<open>
  \<open>SaveInstrument\<close> of \<open>internal/storage/instruments.go\<close>. \<open>failure\<close> is the error of \<open>Exec\<close> when
  the database refuses the statement, in which case the table is as before. The function
  returns \<open>fmt.Errorf\<close> of the result of \<open>Exec\<close> on every path.
\<close>

definition SaveInstrument ::
  "'f instrumentsTable \<Rightarrow> time \<Rightarrow> error option \<Rightarrow> 'f Instrument
    \<Rightarrow> error option \<times> 'f instrumentsTable" where
  "SaveInstrument tbl now failure instrument =
     (Some (Errorf SaveInstrumentFailed failure),
      (case failure of
         Some _ \<Rightarrow> tbl
       | None \<Rightarrow>
           upsertByFigi tbl now (Figi instrument)
             (proposedRow (instrumentDefaults now)
                (baseColumns instrument @ [(''updated_at'', SqlTime now)]))
             (baseSets @ [(''updated_at'', Now)])))"

text \<open>\<open>SaveInstrument\<close> of the later storage package (twenty columns; an error only when \<open>Exec\<close> fails).\<close>

definition SaveInstrumentExt ::
  "'f instrumentsTable \<Rightarrow> time \<Rightarrow> error option \<Rightarrow> 'f InstrumentExt
    \<Rightarrow> error option \<times> 'f instrumentsTable" where
  "SaveInstrumentExt tbl now failure instrument =
     (case failure of
        Some err \<Rightarrow> (Some (Errorf SaveInstrumentFailed (Some err)), tbl)
      | None \<Rightarrow>
          (None,
           upsertByFigi tbl now (Figi instrument)
             (proposedRow (instrumentDefaults now)
                (baseColumns instrument @
                 [(''isin'', SqlText (Isin instrument)),
                  (''short_enabled_flag'', SqlBool (ShortEnabledFlag instrument)),
                  (''ipo_date'', SqlTime (IpoDate instrument)),
                  (''issue_size'', SqlInt (IssueSize instrument)),
                  (''sector'', SqlText (Sector instrument)),
                  (''real_exchange'', SqlText (RealExchange instrument)),
                  (''first_1min_candle_date'', SqlTime (First1MinCandleDate instrument)),
                  (''first_1day_candle_date'', SqlTime (First1DayCandleDate instrument)),
                  (''data_source_id'', SqlInt (DataSourceID instrument)),
                  (''created_at'', SqlTime (CreatedAt instrument)),
                  (''updated_at'', SqlTime (UpdatedAt instrument))]))
             (baseSets @
              [(''isin'', Excluded ''isin''),
               (''short_enabled_flag'', Excluded ''short_enabled_flag''),
               (''ipo_date'', Excluded ''ipo_date''), (''issue_size'', Excluded ''issue_size''),
               (''sector'', Excluded ''sector''), (''real_exchange'', Excluded ''real_exchange''),
               (''first_1min_candle_date'', Excluded ''first_1min_candle_date''),
               (''first_1day_candle_date'', Excluded ''first_1day_candle_date''),
               (''data_source_id'', Excluded ''data_source_id''), (''updated_at'', Now)])))"

text \<open>An instrument an operator has enabled, and the record a later synchronisation brings for it.\<close>

definition storedRow :: "string row" where
  "storedRow =
     proposedRow (instrumentDefaults 63839664000000000000)
       [(''figi'', SqlText ''BBG004730N88''), (''ticker'', SqlText ''SBER''),
        (''name'', SqlText ''Sberbank''), (''instrument_type'', SqlText ''share''),
        (''currency'', SqlText ''rub''), (''lot_size'', SqlInt 10),
        (''min_price_increment'', SqlFloat ''0.01''),
        (''trading_status'', SqlText ''SECURITY_TRADING_STATUS_NORMAL_TRADING''),
        (''enabled'', SqlBool True)]"

definition incoming :: "string Instrument" where
  "incoming =
     \<lparr>Figi = ''BBG004730N88'', Ticker = ''SBER'', Name = ''Sberbank of Russia'',
      InstrumentType = ''share'', Currency = ''rub'', LotSize = 1, MinPriceIncrement = ''0.01'',
      TradingStatus = ''SECURITY_TRADING_STATUS_NORMAL_TRADING'', Enabled = False\<rparr>"

definition incomingExt :: "string InstrumentExt" where
  "incomingExt =
     \<lparr>Figi = ''BBG004730N88'', Ticker = ''SBER'', Name = ''Sberbank of Russia'',
      InstrumentType = ''share'', Currency = ''rub'', LotSize = 1, MinPriceIncrement = ''0.01'',
      TradingStatus = ''normal_trading'', Enabled = False,
      Isin = ''RU0009029540'', ShortEnabledFlag = True, IpoDate = 0, IssueSize = 21586948000,
      Sector = ''financial'', RealExchange = ''moex'',
      First1MinCandleDate = 63656064000000000000, First1DayCandleDate = 63082281600000000000,
      DataSourceID = 1, CreatedAt = 63840441600000000000, UpdatedAt = 63840441600000000000\<rparr>"

section \<open>Properties of the decimal codec\<close>

lemma digit_cases:
  "d < 10 \<Longrightarrow> d = 0 \<or> d = 1 \<or> d = 2 \<or> d = 3 \<or> d = 4 \<or> d = 5 \<or> d = 6 \<or> d = 7 \<or> d = 8 \<or> d = (9::nat)"
  by arith

lemma isDigit_digitChar: "d < 10 \<Longrightarrow> isDigit (digitChar d)"
  using digit_cases [of d] by (auto simp: isDigit_def digitChar_def)

lemma digitVal_digitChar: "d < 10 \<Longrightarrow> digitVal (digitChar d) = d"
  using digit_cases [of d] by (auto simp: digitVal_def digitChar_def)

lemma fmtNat_all_digits: "list_all isDigit (fmtNat n)"
proof (induction n rule: fmtNat.induct)
  case (1 n)
  show ?case
  proof (cases "n < 10")
    case True
    then show ?thesis by (simp add: fmtNat.simps [of n] isDigit_digitChar)
  next
    case False
    with 1 show ?thesis by (simp add: fmtNat.simps [of n] isDigit_digitChar)
  qed
qed

lemma fmtNat_nonempty: "fmtNat n \<noteq> []"
  by (simp add: fmtNat.simps [of n])

lemma digitsVal_snoc: "digitsVal (s @ [c]) = digitsVal s * 10 + digitVal c"
  by (simp add: digitsVal_def)

lemma digitsVal_fmtNat: "digitsVal (fmtNat n) = n"
proof (induction n rule: fmtNat.induct)
  case (1 n)
  show ?case
  proof (cases "n < 10")
    case True
    then show ?thesis by (simp add: fmtNat.simps [of n] digitsVal_def digitVal_digitChar)
  next
    case False
    with 1 show ?thesis
      by (simp add: fmtNat.simps [of n] digitsVal_snoc digitVal_digitChar)
  qed
qed

lemma length_fmtNat: "n < 10 ^ Suc k \<Longrightarrow> length (fmtNat n) \<le> Suc k"
proof (induction k arbitrary: n)
  case 0
  then show ?case by (simp add: fmtNat.simps [of n])
next
  case (Suc k)
  show ?case
  proof (cases "n < 10")
    case True
    then show ?thesis by (simp add: fmtNat.simps [of n])
  next
    case False
    from Suc.prems have "n div 10 < 10 ^ Suc k" by (simp add: less_mult_imp_div_less)
    from Suc.IH [OF this] False show ?thesis by (simp add: fmtNat.simps [of n])
  qed
qed

lemma strip_Nil: "stripTrailingZeros [] = []"
  by (subst stripTrailingZeros.simps) simp

lemma strip_snoc_zero: "stripTrailingZeros (t @ ''0'') = stripTrailingZeros t"
  by (subst stripTrailingZeros.simps) simp

lemma strip_snoc_other: "c \<noteq> CHR ''0'' \<Longrightarrow> stripTrailingZeros (t @ [c]) = t @ [c]"
  by (subst stripTrailingZeros.simps) simp

lemma stripTrailingZeros_eq:
  "stripTrailingZeros s = rev (dropWhile (\<lambda>c. c = CHR ''0'') (rev s))"
proof (induction s rule: rev_induct)
  case Nil
  show ?case by (simp add: strip_Nil)
next
  case (snoc c t)
  show ?case
  proof (cases "c = CHR ''0''")
    case True
    with snoc show ?thesis by (simp add: strip_snoc_zero)
  next
    case False
    then show ?thesis by (simp add: strip_snoc_other)
  qed
qed

lemma padFraction_eq: "padFraction s = s @ replicate (9 - length s) (CHR ''0'')"
proof (induction s rule: padFraction.induct)
  case (1 s)
  show ?case
  proof (cases "length s < 9")
    case True
    with 1 have "padFraction (s @ ''0'') = (s @ ''0'') @ replicate (9 - length (s @ ''0'')) (CHR ''0'')"
      by simp
    moreover from True have "9 - length s = Suc (9 - length (s @ ''0''))" by simp
    ultimately show ?thesis using True
      by (subst padFraction.simps) (simp add: replicate_app_Cons_same)
  next
    case False
    then show ?thesis by (subst padFraction.simps) simp
  qed
qed

lemma strip_repad:
  "stripTrailingZeros t @ replicate (length t - length (stripTrailingZeros t)) (CHR ''0'') = t"
proof (induction t rule: rev_induct)
  case Nil
  show ?case by (simp add: strip_Nil)
next
  case (snoc c t)
  show ?case
  proof (cases "c = CHR ''0''")
    case True
    have le: "length (stripTrailingZeros t) \<le> length t"
      by (simp add: stripTrailingZeros_eq) (metis length_dropWhile_le length_rev)
    then have k: "Suc (length t) - length (stripTrailingZeros t)
                 = Suc (length t - length (stripTrailingZeros t))" by simp
    let ?k = "length t - length (stripTrailingZeros t)"
    have "replicate (Suc ?k) (CHR ''0'') = replicate ?k (CHR ''0'') @ ''0''"
      by (simp add: replicate_append_same)
    then have "stripTrailingZeros t @ replicate (Suc ?k) (CHR ''0'')
                 = (stripTrailingZeros t @ replicate ?k (CHR ''0'')) @ ''0''"
      by simp
    also have "\<dots> = t @ ''0''" by (simp only: snoc)
    finally show ?thesis using True k by (simp add: strip_snoc_zero)
  next
    case False
    then show ?thesis by (simp add: strip_snoc_other)
  qed
qed

lemma strip_all_zero:
  "stripTrailingZeros t = [] \<Longrightarrow> set t \<subseteq> {CHR ''0''}"
  by (auto simp: stripTrailingZeros_eq dropWhile_eq_Nil_conv)

lemma digitsVal_zeros: "digitsVal (replicate k (CHR ''0'') @ s) = digitsVal s"
  by (induction k) (simp_all add: digitsVal_def digitVal_def)


lemma isDigit_not_space: "isDigit c \<Longrightarrow> \<not> asciiSpace c"
  by (auto simp: isDigit_def asciiSpace_def)

lemma unicodeSpaces_all:
  "list_all (\<lambda>u. u \<noteq> [] \<and> \<not> isDigit (hd u) \<and> hd u \<noteq> CHR ''-'' \<and> \<not> isDigit (last u)) unicodeSpaces"
  by (simp add: unicodeSpaces_def isDigit_def)

lemma unicodeSpaces_props:
  "u \<in> set unicodeSpaces \<Longrightarrow>
     u \<noteq> [] \<and> \<not> isDigit (hd u) \<and> hd u \<noteq> CHR ''-'' \<and> \<not> isDigit (last u)"
  using unicodeSpaces_all by (simp only: list_all_iff) blast

lemma leadingSpace_safe:
  assumes "s \<noteq> []" and "isDigit (hd s) \<or> hd s = CHR ''-''"
  shows "leadingSpace s = 0"
proof -
  from assms obtain c cs where s: "s = c # cs" by (cases s) auto
  have "\<not> asciiSpace c" using assms s by (auto simp: isDigit_def asciiSpace_def)
  moreover have "find (\<lambda>u. take (length u) s = u) unicodeSpaces = None"
  proof -
    { fix u assume u: "u \<in> set unicodeSpaces" and t: "take (length u) s = u"
      from unicodeSpaces_props [OF u] have ne: "u \<noteq> []" and h: "\<not> isDigit (hd u)" "hd u \<noteq> CHR ''-''"
        by auto
      from ne t s have "hd u = c" by (cases u) auto
      with h assms s have False by auto }
    then show ?thesis by (auto simp: find_None_iff)
  qed
  ultimately show ?thesis using s by (simp add: leadingSpace_def)
qed

lemma trailingSpace_safe:
  assumes "s \<noteq> []" and "isDigit (last s)"
  shows "trailingSpace s = 0"
proof -
  have "\<not> asciiSpace (last s)" using assms by (simp add: isDigit_not_space)
  moreover have "find (\<lambda>u. drop (length s - length u) s = u) unicodeSpaces = None"
  proof -
    { fix u assume u: "u \<in> set unicodeSpaces" and t: "drop (length s - length u) s = u"
      from unicodeSpaces_props [OF u] have ne: "u \<noteq> []" and h: "\<not> isDigit (last u)"
        by auto
      from ne t have "length s - length u < length s" by (metis drop_eq_Nil not_le)
      then have "last (drop (length s - length u) s) = last s" by (rule last_drop)
      with t h assms have False by simp }
    then show ?thesis by (auto simp: find_None_iff)
  qed
  ultimately show ?thesis using assms by (simp add: trailingSpace_def)
qed

lemma TrimSpace_safe:
  assumes "s \<noteq> []" and "isDigit (hd s) \<or> hd s = CHR ''-''" and "isDigit (last s)"
  shows "TrimSpace s = s"
proof -
  have "TrimLeft s = s"
    by (subst TrimLeft.simps) (simp add: leadingSpace_safe [OF assms(1,2)])
  moreover have "TrimRight s = s"
    by (subst TrimRight.simps) (simp add: trailingSpace_safe [OF assms(1,3)])
  ultimately show ?thesis by (simp add: TrimSpace_def)
qed

lemma IndexDot_ge: "- 1 \<le> IndexDot s"
  by (induction s) (auto simp: Let_def)

lemma IndexDot_none: "CHR ''.'' \<notin> set s \<Longrightarrow> IndexDot s = - 1"
  by (induction s) (auto simp: Let_def)

lemma IndexDot_first:
  "CHR ''.'' \<notin> set a \<Longrightarrow> IndexDot (a @ CHR ''.'' # b) = int (length a)"
  by (induction a) (auto simp: Let_def)

lemma isDigit_not_dot: "isDigit c \<Longrightarrow> c \<noteq> CHR ''.'' \<and> c \<noteq> CHR ''-'' \<and> c \<noteq> CHR ''+''"
  by (auto simp: isDigit_def)

lemma all_digits_no_dot: "list_all isDigit s \<Longrightarrow> CHR ''.'' \<notin> set s"
  using isDigit_not_dot by (auto simp: list_all_iff)

lemma ParseInt_digits:
  assumes "s \<noteq> []" and "list_all isDigit s" and "digitsVal s < 2 ^ (bitSize - 1)"
  shows "ParseInt s bitSize = Some (int (digitsVal s))"
proof -
  from assms(1,2) have "isDigit (hd s)" by (cases s) auto
  then have "hd s \<noteq> CHR ''-''" "hd s \<noteq> CHR ''+''" using isDigit_not_dot by auto
  with assms show ?thesis by (simp add: ParseInt_def Let_def)
qed

lemma ParseInt_neg_digits:
  assumes "s \<noteq> []" and "list_all isDigit s" and "digitsVal s \<le> 2 ^ (bitSize - 1)"
  shows "ParseInt (CHR ''-'' # s) bitSize = Some (- int (digitsVal s))"
  using assms by (simp add: ParseInt_def Let_def)

lemma fmtD_no_dot: "CHR ''.'' \<notin> set (fmtD units)"
  using all_digits_no_dot [OF fmtNat_all_digits] by (simp add: fmtD_def)

lemma fmtD_nonempty: "fmtD units \<noteq> []"
  by (simp add: fmtD_def fmtNat_nonempty)

lemma hd_fmtNat: "isDigit (hd (fmtNat n))"
  using fmtNat_all_digits [of n] fmtNat_nonempty [of n] by (cases "fmtNat n") auto

lemma last_fmtNat: "isDigit (last (fmtNat n))"
  using fmtNat_all_digits [of n] fmtNat_nonempty [of n] by (simp add: list_all_iff)

lemma hd_fmtD: "isDigit (hd (fmtD units)) \<or> hd (fmtD units) = CHR ''-''"
  by (simp add: fmtD_def hd_fmtNat)

lemma last_fmtD: "isDigit (last (fmtD units))"
  by (simp add: fmtD_def last_fmtNat fmtNat_nonempty)

lemma ParseInt_fmtD:
  assumes "- (2 ^ 63) \<le> units" and "units < 2 ^ 63"
  shows "ParseInt (fmtD units) 64 = Some units"
proof (cases "units < 0")
  case True
  with assms have "nat (- units) \<le> 2 ^ 63" by (simp add: nat_le_iff)
  then have "ParseInt (CHR ''-'' # fmtNat (nat (- units))) 64 = Some (- int (digitsVal (fmtNat (nat (- units)))))"
    by (intro ParseInt_neg_digits) (simp_all add: fmtNat_nonempty fmtNat_all_digits digitsVal_fmtNat)
  with True show ?thesis by (simp add: fmtD_def digitsVal_fmtNat)
next
  case False
  with assms have "nat units < 2 ^ 63" by (simp add: nat_less_iff)
  then have "ParseInt (fmtNat (nat units)) 64 = Some (int (digitsVal (fmtNat (nat units))))"
    by (intro ParseInt_digits) (simp_all add: fmtNat_nonempty fmtNat_all_digits digitsVal_fmtNat)
  with False show ?thesis by (simp add: fmtD_def digitsVal_fmtNat)
qed

lemma replicate_numeral: "replicate (numeral k) x = x # replicate (pred_numeral k) x"
  by (simp add: numeral_eq_Suc)

lemma fmtD09_nonneg:
  assumes "0 \<le> nano" and "nano < 1000000000"
  shows "fmtD09 nano = replicate (9 - length (fmtNat (nat nano))) (CHR ''0'') @ fmtNat (nat nano)"
    and "length (fmtD09 nano) = 9"
proof -
  from assms have "nat nano < 10 ^ Suc 8" by (simp add: nat_less_iff)
  then have "length (fmtNat (nat nano)) \<le> Suc 8" by (rule length_fmtNat)
  then have l: "length (fmtNat (nat nano)) \<le> 9" by simp
  from assms show "fmtD09 nano = replicate (9 - length (fmtNat (nat nano))) (CHR ''0'') @ fmtNat (nat nano)"
    by (simp add: fmtD09_def padZeros_def)
  with l show "length (fmtD09 nano) = 9" by simp
qed

lemma fmtD09_all_digits:
  assumes "0 \<le> nano" and "nano < 1000000000"
  shows "list_all isDigit (fmtD09 nano)"
proof -
  have "isDigit (CHR ''0'')" by (simp add: isDigit_def)
  then show ?thesis
    using fmtNat_all_digits [of "nat nano"]
    by (auto simp: fmtD09_nonneg(1) [OF assms] list_all_iff)
qed

lemma digitsVal_fmtD09:
  assumes "0 \<le> nano" and "nano < 1000000000"
  shows "digitsVal (fmtD09 nano) = nat nano"
  by (simp add: fmtD09_nonneg(1) [OF assms] digitsVal_zeros digitsVal_fmtNat)

lemma digitsVal_all_zero: "set t \<subseteq> {CHR ''0''} \<Longrightarrow> digitsVal t = 0"
proof (induction t rule: rev_induct)
  case Nil
  show ?case by (simp add: digitsVal_def)
next
  case (snoc c t)
  then show ?case by (simp add: digitsVal_snoc digitVal_def)
qed

lemma strip_fmtD09_nonempty:
  assumes "0 < nano" and "nano < 1000000000"
  shows "stripTrailingZeros (fmtD09 nano) \<noteq> []"
proof
  assume "stripTrailingZeros (fmtD09 nano) = []"
  then have "digitsVal (fmtD09 nano) = 0" by (intro digitsVal_all_zero strip_all_zero)
  with assms show False by (simp add: digitsVal_fmtD09)
qed

lemma ConvertMoneyValue_refines:
  assumes "0 \<le> nano" and "nano < 1000000000"
  shows "ConvertMoneyValue units nano = encode_spec units (nat nano)"
proof (cases "nano = 0")
  case True
  then show ?thesis by (simp add: ConvertMoneyValue_def encode_spec_def)
next
  case False
  with assms have nz: "nat nano \<noteq> 0" and pos: "0 < nano" by simp_all
  let ?f = "stripTrailingZeros (fmtD09 nano)"
  have ne: "?f \<noteq> []" by (rule strip_fmtD09_nonempty [OF pos assms(2)])
  have f: "rev (dropWhile (\<lambda>c. c = CHR ''0'')
             (rev (replicate (9 - length (fmtNat (nat nano))) (CHR ''0'') @ fmtNat (nat nano)))) = ?f"
    by (simp only: stripTrailingZeros_eq fmtD09_nonneg(1) [OF assms])
  have "encode_spec units (nat nano) = fmtD units @ [CHR ''.''] @ ?f"
    unfolding encode_spec_def Let_def f using nz ne by simp
  moreover have "ConvertMoneyValue units nano = fmtD units @ [CHR ''.''] @ ?f"
    using False ne by (simp add: ConvertMoneyValue_def Let_def)
  ultimately show ?thesis by simp
qed

lemma ConvertMoneyValue_ex1: "ConvertMoneyValue 272 269999999 = ''272.269999999''"
  by (simp add: ConvertMoneyValue_def fmtD_def fmtD09_def padZeros_def fmtNat.simps
      digitChar_def stripTrailingZeros.simps)

lemma ConvertMoneyValue_ex2: "ConvertMoneyValue 272 270000000 = ''272.27''"
  by (simp add: ConvertMoneyValue_def fmtD_def fmtD09_def padZeros_def fmtNat.simps
      digitChar_def stripTrailingZeros.simps)

lemma ConvertMoneyValue_ex3: "ConvertMoneyValue 5 0 = ''5''"
  by (simp add: ConvertMoneyValue_def fmtD_def fmtNat.simps digitChar_def)

lemma sliceTo_take: "n \<le> length s \<Longrightarrow> sliceTo s (int n) = Some (take n s)"
  by (simp add: sliceTo_def)

lemma sliceFrom_drop: "n \<le> length s \<Longrightarrow> sliceFrom s (int n) = Some (drop n s)"
  by (simp add: sliceFrom_def)

lemma length_padFraction: "9 \<le> length (padFraction s)"
  by (simp add: padFraction_eq)

lemma parsePriceString_nodot:
  assumes "CHR ''.'' \<notin> set (TrimSpace s)"
  shows "parsePriceString s =
           Some (case ParseInt (TrimSpace s) 64 of
                   Some u \<Rightarrow> \<lparr>Units = u, Nano = 0\<rparr> | None \<Rightarrow> \<lparr>Units = 0, Nano = 0\<rparr>)"
  using IndexDot_none [OF assms]
  by (simp add: parsePriceString_def Let_def split: option.splits)

lemma parsePriceString_dot:
  assumes p: "TrimSpace s = a @ CHR ''.'' # f" and a: "CHR ''.'' \<notin> set a"
  shows "parsePriceString s =
           Some (case ParseInt a 64 of
                   None \<Rightarrow> \<lparr>Units = 0, Nano = 0\<rparr>
                 | Some u \<Rightarrow>
                     if f = [] then \<lparr>Units = u, Nano = 0\<rparr>
                     else (case ParseInt (cutFraction f) 32 of
                             None \<Rightarrow> \<lparr>Units = u, Nano = 0\<rparr>
                           | Some n \<Rightarrow> \<lparr>Units = u, Nano = n\<rparr>))"
proof -
  have idx: "IndexDot (TrimSpace s) = int (length a)"
    unfolding p by (rule IndexDot_first [OF a])
  have s1: "sliceTo (TrimSpace s) (int (length a)) = Some a"
    unfolding p by (simp add: sliceTo_def)
  have s2: "sliceFrom (TrimSpace s) (int (length a) + 1) = Some f"
    unfolding p by (simp add: sliceFrom_def nat_add_distrib)
  have cut: "take 9 (padFraction f) = cutFraction f" "9 \<le> length (padFraction f)"
    by (simp_all add: padFraction_eq cutFraction_def)
  have s3: "sliceTo (padFraction f) 9 = Some (cutFraction f)"
    using cut by (simp add: sliceTo_def)
  have cut9: "\<not> 9 < length (padFraction f) \<Longrightarrow> padFraction f = cutFraction f"
    using cut by (metis le_antisym not_less take_all)
  show ?thesis
  proof (cases "ParseInt a 64")
    case None
    then show ?thesis
      by (simp add: parsePriceString_def Let_def idx s1 s2)
  next
    case (Some u)
    show ?thesis
    proof (cases "f = []")
      case True
      with Some show ?thesis by (simp add: parsePriceString_def Let_def idx s1 s2)
    next
      case False
      show ?thesis
      proof (cases "9 < length (padFraction f)")
        case True
        with Some False show ?thesis
          by (simp add: parsePriceString_def Let_def idx s1 s2 MaxNanoDigits_def s3
              split: option.splits)
      next
        case False
        note nl = this
        with Some \<open>f \<noteq> []\<close> show ?thesis
          by (simp add: parsePriceString_def Let_def idx s1 s2 MaxNanoDigits_def cut9 [OF nl]
              split: option.splits)
      qed
    qed
  qed
qed

lemma digitVal_less: "isDigit c \<Longrightarrow> digitVal c < 10"
  by (auto simp: isDigit_def digitVal_def)

lemma digitsVal_bound: "list_all isDigit s \<Longrightarrow> digitsVal s < 10 ^ length s"
proof (induction s rule: rev_induct)
  case Nil
  show ?case by (simp add: digitsVal_def)
next
  case (snoc c s)
  then have "digitsVal s < 10 ^ length s" and "digitVal c < 10"
    by (simp_all add: digitVal_less)
  then have "digitsVal s * 10 + digitVal c < 10 ^ length s * 10" by arith
  then show ?case by (simp add: digitsVal_snoc mult.commute)
qed

lemma digitsVal_append_zeros:
  "digitsVal (s @ replicate k (CHR ''0'')) = digitsVal s * 10 ^ k"
proof (induction k)
  case 0
  show ?case by simp
next
  case (Suc k)
  have "s @ replicate (Suc k) (CHR ''0'') = (s @ replicate k (CHR ''0'')) @ ''0''"
    by (simp add: replicate_append_same)
  then have "digitsVal (s @ replicate (Suc k) (CHR ''0''))
               = digitsVal (s @ replicate k (CHR ''0'')) * 10 + digitVal (CHR ''0'')"
    by (simp only: digitsVal_snoc)
  then show ?case using Suc by (simp add: digitVal_def del: replicate_Suc)
qed

lemma ParseInt_cut_short:
  assumes "f \<noteq> []" and "list_all isDigit f" and "length f \<le> 9"
  shows "ParseInt (cutFraction f) 32 = Some (int (digitsVal f * 10 ^ (9 - length f)))"
proof -
  let ?c = "f @ replicate (9 - length f) (CHR ''0'')"
  have c: "cutFraction f = ?c" using assms(3) by (simp add: cutFraction_def)
  have z: "isDigit (CHR ''0'')" by (simp add: isDigit_def)
  have d: "list_all isDigit ?c" using assms(2) z by (auto simp: list_all_iff)
  have l: "length ?c = 9" using assms(3) by simp
  from digitsVal_bound [OF d] have "digitsVal ?c < 10 ^ 9" unfolding l .
  then have "digitsVal ?c < 2 ^ (32 - 1)" by simp
  with assms(1) d have "ParseInt ?c 32 = Some (int (digitsVal ?c))"
    by (intro ParseInt_digits) simp_all
  then show ?thesis unfolding c by (simp only: digitsVal_append_zeros)
qed

lemma ParseInt_cut_long:
  assumes "list_all isDigit (take 9 f)" and "9 \<le> length f"
  shows "ParseInt (cutFraction f) 32 = Some (int (digitsVal (take 9 f)))"
proof -
  have c: "cutFraction f = take 9 f" using assms(2) by (simp add: cutFraction_def)
  have l: "length (take 9 f) = 9" using assms(2) by simp
  from digitsVal_bound [OF assms(1)] have "digitsVal (take 9 f) < 10 ^ 9" unfolding l .
  then have "digitsVal (take 9 f) < 2 ^ (32 - 1)" by simp
  moreover have "take 9 f \<noteq> []" using l by auto
  ultimately have "ParseInt (take 9 f) 32 = Some (int (digitsVal (take 9 f)))"
    using assms(1) by (intro ParseInt_digits) simp_all
  then show ?thesis unfolding c .
qed

lemma parsePriceString_returns: "parsePriceString s \<noteq> None"
proof (cases "CHR ''.'' \<in> set (TrimSpace s)")
  case False
  then show ?thesis by (simp add: parsePriceString_nodot)
next
  case True
  then obtain a f where "TrimSpace s = a @ CHR ''.'' # f" and "CHR ''.'' \<notin> set a"
    by (auto dest: split_list_first)
  then show ?thesis by (simp add: parsePriceString_dot)
qed

lemmas eval_trim = TrimSpace_def TrimLeft.simps TrimRight.simps leadingSpace_def trailingSpace_def
  asciiSpace_def unicodeSpaces_def

lemmas eval_parse = ParseInt_def isDigit_def digitsVal_def digitVal_def Let_def

lemma TrimSpace_example: "TrimSpace ([CHR 0x09, CHR '' '', CHR ''1'', CHR ''2'', CHR ''.'', CHR ''5'', CHR '' '', CHR 0xC2, CHR 0xA0]) = ''12.5''"
  by (simp add: eval_trim)

lemma TrimSpace_malformed: "TrimSpace ''12.ab'' = ''12.ab''"
  by (simp add: eval_trim)

lemma ParseInt_12: "ParseInt ''12'' 64 = Some 12"
  by (simp add: eval_parse)

lemma ParseInt_ab: "ParseInt (cutFraction ''ab'') 32 = None"
  by (simp add: eval_parse cutFraction_def replicate_numeral)

lemma ParseInt_5: "ParseInt (cutFraction ''5'') 32 = Some 500000000"
  by (simp add: eval_parse cutFraction_def replicate_numeral)

lemma TrimSpace_long: "TrimSpace ''12.123456789x'' = ''12.123456789x''"
  by (simp add: eval_trim)

lemma TrimSpace_signed: "TrimSpace ''12.-5'' = ''12.-5''"
  by (simp add: eval_trim)

lemma ParseInt_long: "ParseInt (cutFraction ''123456789x'') 32 = Some 123456789"
  by (simp add: eval_parse cutFraction_def)

lemma ParseInt_signed: "ParseInt (cutFraction ''-5'') 32 = Some (- 50000000)"
  by (simp add: eval_parse cutFraction_def replicate_numeral)

lemma parsePriceString_long: "parsePriceString ''12.123456789x'' = Some \<lparr>Units = 12, Nano = 123456789\<rparr>"
  using parsePriceString_dot [of "''12.123456789x''" "''12''" "''123456789x''"]
  by (simp add: TrimSpace_long ParseInt_12 ParseInt_long)

lemma parsePriceString_signed: "parsePriceString ''12.-5'' = Some \<lparr>Units = 12, Nano = - 50000000\<rparr>"
  using parsePriceString_dot [of "''12.-5''" "''12''" "''-5''"]
  by (simp add: TrimSpace_signed ParseInt_12 ParseInt_signed)

subsection \<open>The encoder\<close>

text \<open>
  Claim C7. For every \<open>units\<close> and every \<open>nano\<close> in \<open>[0, 10^9)\<close>, \<open>ConvertMoneyValue\<close>
  computes the encoder of the specification: the integer alone when \<open>nano\<close> is zero; otherwise
  \<open>nano\<close> padded with zeros to nine digits, its trailing zeros removed, after the integer and a
  point. For a non-zero \<open>nano\<close> in that range a digit always remains. The three examples of the
  specification evaluate as it says.
\<close>

theorem ConvertMoneyValue_spec:
  "0 \<le> nano \<and> nano < 1000000000 \<longrightarrow>
     ConvertMoneyValue units nano = encode_spec units (nat nano)
     \<and> (nano = 0 \<longrightarrow> ConvertMoneyValue units nano = fmtD units)
     \<and> (nano \<noteq> 0 \<longrightarrow>
          stripTrailingZeros (fmtD09 nano) \<noteq> []
          \<and> ConvertMoneyValue units nano = fmtD units @ ''.'' @ stripTrailingZeros (fmtD09 nano))
     \<and> ConvertMoneyValue 272 269999999 = ''272.269999999''
     \<and> ConvertMoneyValue 272 270000000 = ''272.27''
     \<and> ConvertMoneyValue 5 0 = ''5''"
proof (intro impI, elim conjE)
  assume a: "0 \<le> nano" "nano < 1000000000"
  have 1: "ConvertMoneyValue units nano = encode_spec units (nat nano)"
    by (rule ConvertMoneyValue_refines [OF a])
  have 2: "nano = 0 \<longrightarrow> ConvertMoneyValue units nano = fmtD units"
    by (simp add: ConvertMoneyValue_def)
  have 3: "nano \<noteq> 0 \<longrightarrow> stripTrailingZeros (fmtD09 nano) \<noteq> []
          \<and> ConvertMoneyValue units nano = fmtD units @ ''.'' @ stripTrailingZeros (fmtD09 nano)"
  proof
    assume "nano \<noteq> 0"
    with a have "0 < nano" by simp
    from strip_fmtD09_nonempty [OF this a(2)] \<open>nano \<noteq> 0\<close>
    show "stripTrailingZeros (fmtD09 nano) \<noteq> []
          \<and> ConvertMoneyValue units nano = fmtD units @ ''.'' @ stripTrailingZeros (fmtD09 nano)"
      by (simp add: ConvertMoneyValue_def Let_def)
  qed
  from 1 2 3 ConvertMoneyValue_ex1 ConvertMoneyValue_ex2 ConvertMoneyValue_ex3
  show "ConvertMoneyValue units nano = encode_spec units (nat nano)
     \<and> (nano = 0 \<longrightarrow> ConvertMoneyValue units nano = fmtD units)
     \<and> (nano \<noteq> 0 \<longrightarrow>
          stripTrailingZeros (fmtD09 nano) \<noteq> []
          \<and> ConvertMoneyValue units nano = fmtD units @ ''.'' @ stripTrailingZeros (fmtD09 nano))
     \<and> ConvertMoneyValue 272 269999999 = ''272.269999999''
     \<and> ConvertMoneyValue 272 270000000 = ''272.27''
     \<and> ConvertMoneyValue 5 0 = ''5''"
    by blast
qed

theorem ConvertMoneyValue_spec_witness:
  "(0::int) \<le> 50000000 \<and> (50000000::int) < 1000000000
   \<and> ConvertMoneyValue (- 3) 50000000 = encode_spec (- 3) 50000000
   \<and> ConvertMoneyValue (- 3) 50000000 = ''-3.05''"
proof -
  have "ConvertMoneyValue (- 3) 50000000 = ''-3.05''"
    by (simp add: ConvertMoneyValue_def fmtD_def fmtD09_def padZeros_def fmtNat.simps
      digitChar_def stripTrailingZeros.simps)
  then show ?thesis using ConvertMoneyValue_spec [of 50000000 "- 3"] by simp
qed

subsection \<open>Round trip\<close>

text \<open>
  Claim C2. For every \<open>units\<close> of type \<open>int64\<close> and every \<open>nano\<close> in \<open>[0, 10^9)\<close>, decoding the
  text that \<open>ConvertMoneyValue\<close> produces gives the pair back: the trailing zeros the
  encoder removes are put back by the zero padding of the decoder.
\<close>

theorem decode_encode_roundtrip:
  assumes "- (2 ^ 63) \<le> units" and "units < 2 ^ 63"
    and "0 \<le> nano" and "nano < 1000000000"
  shows "parsePriceString (ConvertMoneyValue units nano) = Some \<lparr>Units = units, Nano = nano\<rparr>"
proof (cases "nano = 0")
  case True
  have t: "TrimSpace (fmtD units) = fmtD units"
    by (rule TrimSpace_safe [OF fmtD_nonempty hd_fmtD last_fmtD])
  have "IndexDot (fmtD units) = - 1" by (rule IndexDot_none [OF fmtD_no_dot])
  with True t show ?thesis
    by (simp add: parsePriceString_def ConvertMoneyValue_def ParseInt_fmtD [OF assms(1,2)])
next
  case False
  with assms have pos: "0 < nano" by simp
  let ?f = "stripTrailingZeros (fmtD09 nano)"
  let ?s = "fmtD units @ CHR ''.'' # ?f"
  have ne: "?f \<noteq> []" by (rule strip_fmtD09_nonempty [OF pos assms(4)])
  have enc: "ConvertMoneyValue units nano = ?s"
    using False ne by (simp add: ConvertMoneyValue_def Let_def)
  have digs: "list_all isDigit ?f"
    using fmtD09_all_digits [OF assms(3,4)]
    by (auto simp: stripTrailingZeros_eq list_all_iff dest: set_dropWhileD)
  have lastf: "isDigit (last ?f)" using ne digs by (simp add: list_all_iff)
  have "?s \<noteq> []" by simp
  moreover have "isDigit (hd ?s) \<or> hd ?s = CHR ''-''"
    using hd_fmtD [of units] fmtD_nonempty [of units] by simp
  moreover have "isDigit (last ?s)" using lastf ne by simp
  ultimately have t: "TrimSpace ?s = ?s" by (rule TrimSpace_safe)
  have l9: "length (fmtD09 nano) = 9" by (rule fmtD09_nonneg(2) [OF assms(3,4)])
  have "length ?f \<le> 9"
    using l9 by (simp add: stripTrailingZeros_eq) (metis length_dropWhile_le length_rev)
  then have pad: "cutFraction ?f = fmtD09 nano"
    using strip_repad [of "fmtD09 nano"] by (simp add: cutFraction_def l9)
  have "nat nano < 2 ^ (32 - 1)" using assms(4) by (simp add: nat_less_iff)
  then have "ParseInt (fmtD09 nano) 32 = Some (int (digitsVal (fmtD09 nano)))"
    using l9 by (intro ParseInt_digits fmtD09_all_digits [OF assms(3,4)])
      (auto simp: digitsVal_fmtD09 [OF assms(3,4)])
  then have pn: "ParseInt (fmtD09 nano) 32 = Some nano"
    using assms(3) by (simp add: digitsVal_fmtD09 [OF assms(3,4)])
  from parsePriceString_dot [OF t fmtD_no_dot] ne
  show ?thesis
    by (simp add: enc ParseInt_fmtD [OF assms(1,2)] pad pn)
qed

theorem decode_encode_roundtrip_witness:
  "- (2 ^ 63) \<le> (- 7::int) \<and> (- 7::int) < 2 ^ 63 \<and> (0::int) \<le> 1230 \<and> (1230::int) < 1000000000
   \<and> ConvertMoneyValue (- 7) 1230 = ''-7.00000123''
   \<and> parsePriceString ''-7.00000123'' = Some \<lparr>Units = - 7, Nano = 1230\<rparr>"
proof -
  have e: "ConvertMoneyValue (- 7) 1230 = ''-7.00000123''"
    by (simp add: ConvertMoneyValue_def fmtD_def fmtD09_def padZeros_def fmtNat.simps
      digitChar_def stripTrailingZeros.simps replicate_numeral)
  show ?thesis using decode_encode_roundtrip [of "- 7" 1230] by (simp add: e)
qed

subsection \<open>The decoder\<close>

text \<open>
  The input \<open>12.ab\<close> has a fractional part that is not a number; the decoder keeps the
  integer part and returns 12, not a value of magnitude zero.
\<close>

theorem parsePriceString_malformed_fraction_counterexample:
  "parsePriceString ''12.ab'' = Some \<lparr>Units = 12, Nano = 0\<rparr>"
  using parsePriceString_dot [of "''12.ab''" "''12''" "''ab''"]
  by (simp add: TrimSpace_malformed ParseInt_12 ParseInt_ab)

text \<open>
  Claim C8, as amended. For every input string \<open>parsePriceString\<close> returns a quotation (no
  slice expression panics, and the function has no error result), and the quotation is
  the following. With \<open>p\<close> the input without its leading and trailing white space:
  \<^item> if \<open>p\<close> has no point, the result is \<open>(n, 0)\<close> when \<open>strconv.ParseInt\<close> reads \<open>p\<close> as the
    64-bit integer \<open>n\<close>, and \<open>(0, 0)\<close> when it does not;
  \<^item> if \<open>p\<close> is \<open>a.f\<close>, with the first point of \<open>p\<close> between \<open>a\<close> and \<open>f\<close>: when \<open>ParseInt\<close> does
    not read \<open>a\<close> as a 64-bit integer the result is \<open>(0, 0)\<close>; when it reads \<open>a\<close> as \<open>u\<close>, the
    result is \<open>(u, 0)\<close> for an empty \<open>f\<close>, and for a non-empty \<open>f\<close> it is \<open>(u, n)\<close> when \<open>ParseInt\<close>
    reads as the 32-bit integer \<open>n\<close> the first nine bytes of \<open>f\<close> padded with zeros to nine
    bytes, and \<open>(u, 0)\<close> when it does not.

  So a fractional part of one to nine digits is padded with zeros to nine digits; of a
  fractional part of nine bytes or more only the first nine are read, without rounding,
  and what follows them is ignored even when it is not a digit (\<open>12.123456789x\<close> gives
  \<open>(12, 123456789)\<close>); \<open>ParseInt\<close> accepts a sign, so \<open>12.-5\<close> gives \<open>(12, -50000000)\<close>; and a
  fractional part whose nine bytes are not read as a number gives \<open>(u, 0)\<close>, which keeps the
  integer part.
\<close>

theorem parsePriceString_total:
  "parsePriceString s \<noteq> None
   \<and> (CHR ''.'' \<notin> set (TrimSpace s) \<longrightarrow>
        parsePriceString s =
          Some (case ParseInt (TrimSpace s) 64 of
                  Some n \<Rightarrow> \<lparr>Units = n, Nano = 0\<rparr> | None \<Rightarrow> \<lparr>Units = 0, Nano = 0\<rparr>))
   \<and> (TrimSpace s = a @ CHR ''.'' # f \<and> CHR ''.'' \<notin> set a \<longrightarrow>
        (ParseInt a 64 = None \<longrightarrow> parsePriceString s = Some \<lparr>Units = 0, Nano = 0\<rparr>)
      \<and> (ParseInt a 64 = Some u \<longrightarrow>
            (f = [] \<longrightarrow> parsePriceString s = Some \<lparr>Units = u, Nano = 0\<rparr>)
          \<and> (f \<noteq> [] \<longrightarrow>
               parsePriceString s
                 = Some \<lparr>Units = u,
                         Nano = (case ParseInt (cutFraction f) 32 of Some n \<Rightarrow> n | None \<Rightarrow> 0)\<rparr>)
          \<and> (f \<noteq> [] \<and> list_all isDigit f \<and> length f \<le> 9 \<longrightarrow>
               parsePriceString s
                 = Some \<lparr>Units = u, Nano = int (digitsVal f * 10 ^ (9 - length f))\<rparr>)
          \<and> (9 \<le> length f \<and> list_all isDigit (take 9 f) \<longrightarrow>
               parsePriceString s = Some \<lparr>Units = u, Nano = int (digitsVal (take 9 f))\<rparr>)))
   \<and> parsePriceString ''12.123456789x'' = Some \<lparr>Units = 12, Nano = 123456789\<rparr>
   \<and> parsePriceString ''12.-5'' = Some \<lparr>Units = 12, Nano = - 50000000\<rparr>"
proof (intro conjI impI)
  show "parsePriceString s \<noteq> None" by (rule parsePriceString_returns)
next
  assume "CHR ''.'' \<notin> set (TrimSpace s)"
  then show "parsePriceString s =
          Some (case ParseInt (TrimSpace s) 64 of
                  Some n \<Rightarrow> \<lparr>Units = n, Nano = 0\<rparr> | None \<Rightarrow> \<lparr>Units = 0, Nano = 0\<rparr>)"
    by (rule parsePriceString_nodot)
next
  assume "TrimSpace s = a @ CHR ''.'' # f \<and> CHR ''.'' \<notin> set a" and "ParseInt a 64 = None"
  then show "parsePriceString s = Some \<lparr>Units = 0, Nano = 0\<rparr>"
    by (simp add: parsePriceString_dot)
next
  assume "TrimSpace s = a @ CHR ''.'' # f \<and> CHR ''.'' \<notin> set a" and "ParseInt a 64 = Some u"
    and "f = []"
  then show "parsePriceString s = Some \<lparr>Units = u, Nano = 0\<rparr>"
    by (simp add: parsePriceString_dot)
next
  assume "TrimSpace s = a @ CHR ''.'' # f \<and> CHR ''.'' \<notin> set a" and "ParseInt a 64 = Some u"
    and "f \<noteq> []"
  then show "parsePriceString s
                 = Some \<lparr>Units = u,
                         Nano = (case ParseInt (cutFraction f) 32 of Some n \<Rightarrow> n | None \<Rightarrow> 0)\<rparr>"
    by (simp add: parsePriceString_dot split: option.splits)
next
  assume p: "TrimSpace s = a @ CHR ''.'' # f \<and> CHR ''.'' \<notin> set a" and u: "ParseInt a 64 = Some u"
    and f: "f \<noteq> [] \<and> list_all isDigit f \<and> length f \<le> 9"
  then have "ParseInt (cutFraction f) 32 = Some (int (digitsVal f * 10 ^ (9 - length f)))"
    by (intro ParseInt_cut_short) simp_all
  with p u f show "parsePriceString s
                 = Some \<lparr>Units = u, Nano = int (digitsVal f * 10 ^ (9 - length f))\<rparr>"
    by (simp add: parsePriceString_dot)
next
  assume p: "TrimSpace s = a @ CHR ''.'' # f \<and> CHR ''.'' \<notin> set a" and u: "ParseInt a 64 = Some u"
    and f: "9 \<le> length f \<and> list_all isDigit (take 9 f)"
  then have "ParseInt (cutFraction f) 32 = Some (int (digitsVal (take 9 f)))"
    by (intro ParseInt_cut_long) simp_all
  moreover from f have "f \<noteq> []" by auto
  ultimately show "parsePriceString s = Some \<lparr>Units = u, Nano = int (digitsVal (take 9 f))\<rparr>"
    using p u by (simp add: parsePriceString_dot)
next
  show "parsePriceString ''12.123456789x'' = Some \<lparr>Units = 12, Nano = 123456789\<rparr>"
    by (rule parsePriceString_long)
next
  show "parsePriceString ''12.-5'' = Some \<lparr>Units = 12, Nano = - 50000000\<rparr>"
    by (rule parsePriceString_signed)
qed

theorem parsePriceString_total_witness:
  "TrimSpace ([CHR 0x09, CHR '' '', CHR ''1'', CHR ''2'', CHR ''.'', CHR ''5'', CHR '' '', CHR 0xC2, CHR 0xA0]) = ''12'' @ CHR ''.'' # ''5''
   \<and> CHR ''.'' \<notin> set ''12'' \<and> ParseInt ''12'' 64 = Some 12
   \<and> ''5'' \<noteq> [] \<and> list_all isDigit ''5'' \<and> length ''5'' \<le> 9
   \<and> parsePriceString ([CHR 0x09, CHR '' '', CHR ''1'', CHR ''2'', CHR ''.'', CHR ''5'', CHR '' '', CHR 0xC2, CHR 0xA0])
       = Some \<lparr>Units = 12, Nano = 500000000\<rparr>"
  using parsePriceString_total [of "[CHR 0x09, CHR '' '', CHR ''1'', CHR ''2'', CHR ''.'', CHR ''5'', CHR '' '', CHR 0xC2, CHR 0xA0]" "''12''" "''5''" 12]
  by (simp add: TrimSpace_example ParseInt_12 ParseInt_5 isDigit_def digitsVal_def digitVal_def)

section \<open>Properties of the fetch driver\<close>

lemma wrap64_id: "- (2 ^ 63) \<le> x \<Longrightarrow> x < 2 ^ 63 \<Longrightarrow> wrap64 x = x"
  by (simp add: wrap64_def)

lemma timeUnit_pos: "0 < fst (GetTimeUnitAndConfigKey intervalType)"
  by (simp add: GetTimeUnitAndConfigKey_def Minute_def Hour_def HoursInDay_def DaysInWeek_def
      DaysInMonth_def DefaultUpdateThreshold_def)

lemma chunkSizeFor_exact:
  assumes "(timeUnit, configKey) = GetTimeUnitAndConfigKey intervalType"
    and "0 < GetIntervalLimit c configKey"
    and "GetIntervalLimit c configKey * timeUnit < 2 ^ 63"
  shows "chunkSizeFor c intervalType = GetIntervalLimit c configKey * timeUnit"
    and "0 < chunkSizeFor c intervalType"
proof -
  have u: "0 < timeUnit" using timeUnit_pos [of intervalType] assms(1) [symmetric] by simp
  with assms(2) have p: "0 < GetIntervalLimit c configKey * timeUnit" by simp
  then have "wrap64 (GetIntervalLimit c configKey * timeUnit) = GetIntervalLimit c configKey * timeUnit"
    using assms(3) by (intro wrap64_id) simp_all
  then show "chunkSizeFor c intervalType = GetIntervalLimit c configKey * timeUnit"
    using assms(1) [symmetric] by (simp add: chunkSizeFor_def)
  with p show "0 < chunkSizeFor c intervalType" by simp
qed

lemma chunkLoop_done: "to \<le> currentFrom \<Longrightarrow> chunkLoop body chunkSize to s currentFrom = Some ([], None, s)"
  by (subst chunkLoop.simps) simp

lemma chunkLoop_step:
  assumes "currentFrom < to"
    and "ct = (if to < currentFrom + chunkSize then to else currentFrom + chunkSize)"
    and "body s currentFrom ct = (None, s1)"
  shows "chunkLoop body chunkSize to s currentFrom =
           Option.bind (chunkLoop body chunkSize to s1 ct)
             (\<lambda>r. Some ((currentFrom, ct) # fst r, snd r))"
  by (subst chunkLoop.simps)
    (simp only: assms(1) if_True Let_def assms(2) [symmetric] assms(3) prod.case option.case)

lemma chunkLoop_never_returns:
  assumes ok: "\<forall>s a b. fst (body s a b) = None" and cs: "chunkSize \<le> 0" and lt: "currentFrom < to"
  shows "chunkLoop body chunkSize to s currentFrom = None"
proof (rule ccontr)
  assume "chunkLoop body chunkSize to s currentFrom \<noteq> None"
  then obtain y where y: "chunkLoop body chunkSize to s currentFrom = Some y" by auto
  have "\<not> ((\<forall>s a b. fst (body s a b) = None) \<and> chunkSize \<le> 0 \<and> currentFrom < to)"
  proof (rule chunkLoop.raw_induct
      [where P = "\<lambda>body chunkSize to s currentFrom y.
                    \<not> ((\<forall>s a b. fst (body s a b) = None) \<and> chunkSize \<le> 0 \<and> currentFrom < to)",
        OF _ y])
    fix lp :: "('a \<Rightarrow> int \<Rightarrow> int \<Rightarrow> 'b option \<times> 'a) \<Rightarrow> int \<Rightarrow> int \<Rightarrow> 'a \<Rightarrow> int
                \<Rightarrow> ((int \<times> int) list \<times> 'b option \<times> 'a) option"
      and bd cz t st cf r
    assume ih: "\<And>bd cz t st cf r. lp bd cz t st cf = Some r \<Longrightarrow>
                  \<not> ((\<forall>s a b. fst (bd s a b) = None) \<and> cz \<le> 0 \<and> cf < t)"
      and unf: "(if cf < t then
                  (let currentTo = (if t < cf + cz then t else cf + cz)
                   in (case bd st cf currentTo of
                         (Some err, s') \<Rightarrow> Some ([(cf, currentTo)], Some err, s')
                       | (None, s') \<Rightarrow>
                           Option.bind (lp bd cz t s' currentTo)
                             (\<lambda>r. Some ((cf, currentTo) # fst r, snd r))))
                else Some ([], None, st)) = Some r"
    show "\<not> ((\<forall>s a b. fst (bd s a b) = None) \<and> cz \<le> 0 \<and> cf < t)"
    proof
      assume a: "(\<forall>s a b. fst (bd s a b) = None) \<and> cz \<le> 0 \<and> cf < t"
      then have ct: "(if t < cf + cz then t else cf + cz) = cf + cz" by auto
      obtain s' where b: "bd st cf (cf + cz) = (None, s')"
        using a by (metis prod.collapse)
      from unf a obtain r' where "lp bd cz t s' (cf + cz) = Some r'"
        unfolding ct Let_def b by (auto split: Option.bind_splits)
      from ih [OF this] a show False by auto
    qed
  qed
  with assms show False by simp
qed

lemma chained_Cons: "chunks \<noteq> [] \<Longrightarrow> chained (c # chunks) = (snd c = fst (hd chunks) \<and> chained chunks)"
  by (cases chunks) simp_all

lemma chunkLoop_fail:
  assumes "currentFrom < to"
    and "ct = (if to < currentFrom + chunkSize then to else currentFrom + chunkSize)"
    and "body s currentFrom ct = (Some err, s1)"
  shows "chunkLoop body chunkSize to s currentFrom = Some ([(currentFrom, ct)], Some err, s1)"
  by (subst chunkLoop.simps)
    (simp only: assms(1) if_True Let_def assms(2) [symmetric] assms(3) prod.case option.case)

lemma chunkLoop_runs:
  assumes cs: "0 < chunkSize"
  shows "currentFrom < to \<Longrightarrow>
         \<exists>chunks r s'. chunkLoop body chunkSize to s currentFrom = Some (chunks, r, s')
            \<and> covers chunks currentFrom (snd (last chunks)) \<and> snd (last chunks) \<le> to
            \<and> sized chunkSize chunks \<and> (r = None \<longrightarrow> snd (last chunks) = to)"
proof (induction "nat (to - currentFrom)" arbitrary: s currentFrom rule: less_induct)
  case less
  let ?ct = "if to < currentFrom + chunkSize then to else currentFrom + chunkSize"
  obtain e s1 where b: "body s currentFrom ?ct = (e, s1)" by (cases "body s currentFrom ?ct")
  have ctle: "?ct \<le> to" "currentFrom < ?ct" "?ct - currentFrom \<le> chunkSize"
    using cs less.prems by auto
  have one: "covers [(currentFrom, ?ct)] currentFrom (snd (last [(currentFrom, ?ct)]))"
    "sized chunkSize [(currentFrom, ?ct)]"
    using ctle by (simp_all add: covers_def sized_def)
  show ?case
  proof (cases e)
    case (Some err)
    have "chunkLoop body chunkSize to s currentFrom = Some ([(currentFrom, ?ct)], Some err, s1)"
      by (rule chunkLoop_fail [where ct = ?ct and chunkSize = chunkSize and body = body
          and s = s and currentFrom = currentFrom and to = to and ?s1.0 = s1 and err = err,
          OF less.prems refl b [unfolded Some]])
    with one ctle show ?thesis by fastforce
  next
    case None
    have step: "chunkLoop body chunkSize to s currentFrom =
           Option.bind (chunkLoop body chunkSize to s1 ?ct)
             (\<lambda>r. Some ((currentFrom, ?ct) # fst r, snd r))"
      by (rule chunkLoop_step [where ct = ?ct and chunkSize = chunkSize and body = body
          and s = s and currentFrom = currentFrom and to = to and ?s1.0 = s1,
          OF less.prems refl b [unfolded None]])
    show ?thesis
    proof (cases "?ct < to")
      case False
      with ctle have e: "?ct = to" by linarith
      have "chunkLoop body chunkSize to s1 ?ct = Some ([], None, s1)"
        using e by (intro chunkLoop_done) simp
      then have "chunkLoop body chunkSize to s currentFrom = Some ([(currentFrom, ?ct)], None, s1)"
        unfolding step by simp
      with one ctle e show ?thesis by fastforce
    next
      case True
      then have full: "?ct = currentFrom + chunkSize" by (auto split: if_splits)
      have "nat (to - ?ct) < nat (to - currentFrom)" using ctle True by linarith
      from less.hyps [OF this True, of s1]
      obtain chunks r s' where r: "chunkLoop body chunkSize to s1 ?ct = Some (chunks, r, s')"
        and c: "covers chunks ?ct (snd (last chunks))" and le: "snd (last chunks) \<le> to"
        and z: "sized chunkSize chunks" and n: "r = None \<longrightarrow> snd (last chunks) = to"
        by blast
      from c have ne: "chunks \<noteq> []" by (simp add: covers_def)
      have "chunkLoop body chunkSize to s currentFrom = Some ((currentFrom, ?ct) # chunks, r, s')"
        unfolding step r by simp
      moreover have "covers ((currentFrom, ?ct) # chunks) currentFrom
                       (snd (last ((currentFrom, ?ct) # chunks)))"
        using c ctle ne by (simp add: covers_def chained_Cons)
      moreover have "sized chunkSize ((currentFrom, ?ct) # chunks)"
        using z ne full by (simp add: sized_def)
      moreover have "snd (last ((currentFrom, ?ct) # chunks)) \<le> to"
        "r = None \<longrightarrow> snd (last ((currentFrom, ?ct) # chunks)) = to"
        using le n ne by simp_all
      ultimately show ?thesis by blast
    qed
  qed
qed

lemma chained_span:
  "chunks \<noteq> [] \<Longrightarrow> chained chunks \<Longrightarrow> list_all (\<lambda>c. fst c < snd c) chunks
     \<Longrightarrow> fst (hd chunks) < snd (last chunks)"
proof (induction chunks rule: chained.induct)
  case (1 c d r)
  then show ?case by fastforce
qed simp_all

lemma covers_pointwise:
  "chunks \<noteq> [] \<Longrightarrow> chained chunks \<Longrightarrow> list_all (\<lambda>c. fst c < snd c) chunks
     \<Longrightarrow> (fst (hd chunks) \<le> t \<and> t < snd (last chunks)) = (\<exists>c\<in>set chunks. fst c \<le> t \<and> t < snd c)"
proof (induction chunks rule: chained.induct)
  case (1 c d r)
  then have ih: "(fst d \<le> t \<and> t < snd (last (d # r))) = (\<exists>c\<in>set (d # r). fst c \<le> t \<and> t < snd c)"
    by simp
  from 1 have sp: "fst d < snd (last (d # r))" using chained_span [of "d # r"] by simp
  from 1 have cd: "snd c = fst d" "fst c < snd c" by simp_all
  show ?case
  proof (cases "fst d \<le> t")
    case True
    with cd ih show ?thesis by auto
  next
    case False
    with ih have "\<not> (\<exists>c\<in>set (d # r). fst c \<le> t \<and> t < snd c)" by simp
    with False cd sp show ?thesis by auto
  qed
qed simp_all

lemma chunkLoop_first:
  assumes "currentFrom < to" and "chunkLoop body chunkSize to s currentFrom = Some (chunks, r, s')"
  shows "chunks \<noteq> [] \<and> fst (hd chunks) = currentFrom"
proof -
  let ?ct = "if to < currentFrom + chunkSize then to else currentFrom + chunkSize"
  obtain e s1 where b: "body s currentFrom ?ct = (e, s1)" by (cases "body s currentFrom ?ct")
  show ?thesis
  proof (cases e)
    case None
    from assms(2) show ?thesis
      unfolding chunkLoop_step [where ct = ?ct and chunkSize = chunkSize and body = body
          and s = s and currentFrom = currentFrom and to = to and ?s1.0 = s1,
          OF assms(1) refl b [unfolded None]]
      by (auto split: Option.bind_splits)
  next
    case (Some err)
    have "chunkLoop body chunkSize to s currentFrom = Some ([(currentFrom, ?ct)], Some err, s1)"
      by (subst chunkLoop.simps)
        (simp only: assms(1) if_True Let_def b Some prod.case option.case)
    with assms(2) show ?thesis by auto
  qed
qed

lemmas eval_chunkSize = chunkSizeFor_def GetTimeUnitAndConfigKey_def interval_names
  GetIntervalLimit_def wrap64_def Minute_def Hour_def HoursInDay_def DaysInWeek_def
  DaysInMonth_def MinutesInDay_def MinutesInHour_def DefaultUpdateThreshold_def

lemma chunkSize_month_3559:
  "chunkSizeFor \<lparr>StartDate = ''2024-01-01'', Limits = [''1month'' \<mapsto> 3559], RateLimitPause = 0\<rparr>
     ''CANDLE_INTERVAL_MONTH'' = - 9221816073709551616"
  by (simp add: eval_chunkSize)

lemma chunkLoop_example:
  "chunkLoop (\<lambda>s a b. (None, s))
     (chunkSizeFor \<lparr>StartDate = ''2024-01-01'', Limits = [''1day'' \<mapsto> 4], RateLimitPause = 0\<rparr>
        ''CANDLE_INTERVAL_DAY'')
     63840441600000000000 () 63839664000000000000
   = Some ([(63839664000000000000, 63840009600000000000),
            (63840009600000000000, 63840355200000000000),
            (63840355200000000000, 63840441600000000000)], None, ())"
  by (simp add: eval_chunkSize chunkLoop.simps)

subsection \<open>The chunk planner\<close>

text \<open>
  The chunk size is the product of two \<open>int64\<close> durations and wraps around. With the monthly
  resolution (atomic unit 30 days) and a row limit of 3559 the product is above \<open>2^63\<close>
  nanoseconds and the chunk size is negative: \<open>currentTo\<close> is before \<open>currentFrom\<close>, never after
  \<open>to\<close>, and the cursor moves backwards. For the range from 2024-01-01 to 2024-01-10: with
  every fetch and save succeeding the loop never returns; with an API that refuses a range
  whose end is before its start, the loop ends with that error after the one chunk from
  2024-01-01 back to the year 1731.
\<close>

theorem chunk_planner_overflow_counterexample:
  "chunkLoop (\<lambda>s a b. (None, s))
     (chunkSizeFor \<lparr>StartDate = ''2024-01-01'', Limits = [''1month'' \<mapsto> 3559], RateLimitPause = 0\<rparr>
        ''CANDLE_INTERVAL_MONTH'')
     63840441600000000000 () 63839664000000000000 = None
   \<and> chunkLoop (\<lambda>s a b. (if b < a then Some () else None, s))
     (chunkSizeFor \<lparr>StartDate = ''2024-01-01'', Limits = [''1month'' \<mapsto> 3559], RateLimitPause = 0\<rparr>
        ''CANDLE_INTERVAL_MONTH'')
     63840441600000000000 () 63839664000000000000
     = Some ([(63839664000000000000, 54617847926290448384)], Some (), ())"
proof
  show "chunkLoop (\<lambda>s a b. (None, s))
     (chunkSizeFor \<lparr>StartDate = ''2024-01-01'', Limits = [''1month'' \<mapsto> 3559], RateLimitPause = 0\<rparr>
        ''CANDLE_INTERVAL_MONTH'')
     63840441600000000000 () 63839664000000000000 = None"
    by (rule chunkLoop_never_returns) (simp_all add: chunkSize_month_3559)
  show "chunkLoop (\<lambda>s a b. (if b < a then Some () else None, s))
     (chunkSizeFor \<lparr>StartDate = ''2024-01-01'', Limits = [''1month'' \<mapsto> 3559], RateLimitPause = 0\<rparr>
        ''CANDLE_INTERVAL_MONTH'')
     63840441600000000000 () 63839664000000000000
     = Some ([(63839664000000000000, 54617847926290448384)], Some (), ())"
    by (subst chunkLoop.simps) (simp add: chunkSize_month_3559)
qed

text \<open>
  Claim C1, as amended. For every resolution, every \<open>from\<close> and \<open>to\<close>, every state and every
  behaviour of fetch and save: if \<open>from \<ge> to\<close> the loop returns at once, the body (fetch and
  save) is never run and the state is unchanged, whatever the row limit. If \<open>from < to\<close>, the
  row limit is positive and its product with the atomic unit of the resolution is below
  \<open>2^63\<close> nanoseconds (so that the \<open>int64\<close> product does not wrap around), then the loop
  returns, and the chunks it ran the body on are such that the first starts at \<open>from\<close>, each
  ends where the next starts, none is empty, none ends after \<open>to\<close>, every chunk but the last
  has the length atomic unit times row limit and the last is not longer. When no error of
  a fetch or save ended the loop, the last chunk ends at \<open>to\<close>: the chunks cover \<open>[from, to)\<close>
  exactly, and an instant is in \<open>[from, to)\<close> if and only if it is in a chunk.
\<close>

theorem chunk_planner_coverage:
  "(to \<le> from \<longrightarrow> chunkLoop body (chunkSizeFor c intervalType) to s from = Some ([], None, s))
   \<and> ((timeUnit, configKey) = GetTimeUnitAndConfigKey intervalType
        \<and> 0 < GetIntervalLimit c configKey
        \<and> GetIntervalLimit c configKey * timeUnit < 2 ^ 63
        \<and> from < to \<longrightarrow>
       (\<exists>chunks r s'.
           chunkLoop body (chunkSizeFor c intervalType) to s from = Some (chunks, r, s')
           \<and> covers chunks from (snd (last chunks)) \<and> snd (last chunks) \<le> to
           \<and> sized (GetIntervalLimit c configKey * timeUnit) chunks
           \<and> (r = None \<longrightarrow>
                covers chunks from to
                \<and> (\<forall>t. (from \<le> t \<and> t < to) = (\<exists>ch\<in>set chunks. fst ch \<le> t \<and> t < snd ch)))))"
proof (intro conjI impI)
  assume "to \<le> from"
  then show "chunkLoop body (chunkSizeFor c intervalType) to s from = Some ([], None, s)"
    by (rule chunkLoop_done)
next
  assume a: "(timeUnit, configKey) = GetTimeUnitAndConfigKey intervalType
        \<and> 0 < GetIntervalLimit c configKey
        \<and> GetIntervalLimit c configKey * timeUnit < 2 ^ 63
        \<and> from < to"
  then have k: "(timeUnit, configKey) = GetTimeUnitAndConfigKey intervalType"
    and l: "0 < GetIntervalLimit c configKey"
    and b: "GetIntervalLimit c configKey * timeUnit < 2 ^ 63"
    and lt: "from < to" by blast+
  note cs = chunkSizeFor_exact [OF k l b]
  from chunkLoop_runs [OF cs(2) lt, of body s]
  obtain chunks r s' where r: "chunkLoop body (chunkSizeFor c intervalType) to s from = Some (chunks, r, s')"
    and cv: "covers chunks from (snd (last chunks))" and le: "snd (last chunks) \<le> to"
    and sz: "sized (chunkSizeFor c intervalType) chunks"
    and n: "r = None \<longrightarrow> snd (last chunks) = to"
    by blast
  have "r = None \<longrightarrow> covers chunks from to
          \<and> (\<forall>t. (from \<le> t \<and> t < to) = (\<exists>ch\<in>set chunks. fst ch \<le> t \<and> t < snd ch))"
  proof (intro impI conjI allI)
    assume "r = None"
    with n have e: "snd (last chunks) = to" by simp
    with cv show c: "covers chunks from to" by simp
    fix t
    from c have "chunks \<noteq> []" "chained chunks" "list_all (\<lambda>c. fst c < snd c) chunks"
      and e: "fst (hd chunks) = from" "snd (last chunks) = to"
      by (simp_all add: covers_def)
    from covers_pointwise [OF this(1,2,3), of t] e
    show "(from \<le> t \<and> t < to) = (\<exists>ch\<in>set chunks. fst ch \<le> t \<and> t < snd ch)" by simp
  qed
  with r cv le sz cs(1)
  show "\<exists>chunks r s'.
           chunkLoop body (chunkSizeFor c intervalType) to s from = Some (chunks, r, s')
           \<and> covers chunks from (snd (last chunks)) \<and> snd (last chunks) \<le> to
           \<and> sized (GetIntervalLimit c configKey * timeUnit) chunks
           \<and> (r = None \<longrightarrow>
                covers chunks from to
                \<and> (\<forall>t. (from \<le> t \<and> t < to) = (\<exists>ch\<in>set chunks. fst ch \<le> t \<and> t < snd ch)))"
    by auto
qed

theorem chunk_planner_coverage_witness:
  "(86400000000000, ''1day'') = GetTimeUnitAndConfigKey ''CANDLE_INTERVAL_DAY''
   \<and> 0 < GetIntervalLimit \<lparr>StartDate = ''2024-01-01'', Limits = [''1day'' \<mapsto> 4], RateLimitPause = 0\<rparr> ''1day''
   \<and> GetIntervalLimit \<lparr>StartDate = ''2024-01-01'', Limits = [''1day'' \<mapsto> 4], RateLimitPause = 0\<rparr> ''1day''
        * 86400000000000 < 2 ^ 63
   \<and> (63839664000000000000 :: int) < 63840441600000000000
   \<and> chunkLoop (\<lambda>s a b. (None :: unit option, s))
        (chunkSizeFor \<lparr>StartDate = ''2024-01-01'', Limits = [''1day'' \<mapsto> 4], RateLimitPause = 0\<rparr>
           ''CANDLE_INTERVAL_DAY'')
        63840441600000000000 () 63839664000000000000
      = Some ([(63839664000000000000, 63840009600000000000),
               (63840009600000000000, 63840355200000000000),
               (63840355200000000000, 63840441600000000000)], None, ())
   \<and> covers [(63839664000000000000, 63840009600000000000),
             (63840009600000000000, 63840355200000000000),
             (63840355200000000000, 63840441600000000000)]
        63839664000000000000 63840441600000000000
   \<and> sized 345600000000000
        [(63839664000000000000, 63840009600000000000),
         (63840009600000000000, 63840355200000000000),
         (63840355200000000000, 63840441600000000000)]"
proof -
  let ?c = "\<lparr>StartDate = ''2024-01-01'', Limits = [''1day'' \<mapsto> 4], RateLimitPause = 0\<rparr>"
  have h: "(86400000000000, ''1day'') = GetTimeUnitAndConfigKey ''CANDLE_INTERVAL_DAY''
     \<and> 0 < GetIntervalLimit ?c ''1day''
     \<and> GetIntervalLimit ?c ''1day'' * 86400000000000 < 2 ^ 63
     \<and> (63839664000000000000 :: int) < 63840441600000000000"
    by (simp add: eval_chunkSize)
  have g: "GetIntervalLimit ?c ''1day'' * 86400000000000 = 345600000000000"
    by (simp add: GetIntervalLimit_def)
  from chunk_planner_coverage [of 63840441600000000000 63839664000000000000
      "\<lambda>s a b. (None :: unit option, s)" ?c "''CANDLE_INTERVAL_DAY''" "()" 86400000000000 "''1day''",
      THEN conjunct2, rule_format, OF h]
  show ?thesis using h unfolding g chunkLoop_example by auto
qed

subsection \<open>The start of the loading range\<close>

text \<open>
  Claim C9. \<open>GetLastLoadedTime\<close> reports no stored candle (a NULL maximum) as the zero time
  without an error, and \<open>ProcessInstrument\<close> then runs the chunk loop from the configured
  history start date \<open>GetStartDate\<close> (the date of the configuration when it parses) to the
  current time. A stored last candle time \<open>t\<close> (not the zero time, which stands for absence)
  that is not fresh makes the loop start exactly at \<open>t\<close>; a fresh one loads nothing. Whenever
  the loop returns for a non-empty range, the first chunk it ran the body on starts at the
  start of the range.
\<close>

theorem compute_start:
  "GetLastLoadedTime (ScanNull :: 'q scan) = (zeroTime, None)
   \<and> ProcessInstrument e body c s (ScanNull :: 'q scan) interval
       = Inr (chunkLoop body (chunkSizeFor c interval) (nowTo e) s (GetStartDate e c))
   \<and> (StartDate c \<noteq> [] \<and> Parse e (StartDate c) = Some d \<longrightarrow> GetStartDate e c = d)
   \<and> (t \<noteq> zeroTime \<and> ShouldUpdateData e t interval \<longrightarrow>
        GetLastLoadedTime (ScanTime t :: 'q scan) = (t, None)
        \<and> ProcessInstrument e body c s (ScanTime t :: 'q scan) interval
            = Inr (chunkLoop body (chunkSizeFor c interval) (nowTo e) s t))
   \<and> (t \<noteq> zeroTime \<and> \<not> ShouldUpdateData e t interval \<longrightarrow>
        ProcessInstrument e body c s (ScanTime t :: 'q scan) interval = Inr (Some ([], None, s)))
   \<and> (\<forall>chunks r s'. from < to \<and> chunkLoop body chunkSize to s from = Some (chunks, r, s')
        \<longrightarrow> chunks \<noteq> [] \<and> fst (hd chunks) = from)"
proof (intro conjI impI allI)
  show "GetLastLoadedTime (ScanNull :: 'q scan) = (zeroTime, None)"
    by (simp add: GetLastLoadedTime_def)
next
  show "ProcessInstrument e body c s (ScanNull :: 'q scan) interval
       = Inr (chunkLoop body (chunkSizeFor c interval) (nowTo e) s (GetStartDate e c))"
    by (simp add: ProcessInstrument_def GetLastLoadedTime_def LoadCandleData_def)
next
  assume "StartDate c \<noteq> [] \<and> Parse e (StartDate c) = Some d"
  then show "GetStartDate e c = d" by (simp add: GetStartDate_def)
next
  assume "t \<noteq> zeroTime \<and> ShouldUpdateData e t interval"
  show "GetLastLoadedTime (ScanTime t :: 'q scan) = (t, None)"
    by (simp add: GetLastLoadedTime_def)
next
  assume "t \<noteq> zeroTime \<and> ShouldUpdateData e t interval"
  then show "ProcessInstrument e body c s (ScanTime t :: 'q scan) interval
            = Inr (chunkLoop body (chunkSizeFor c interval) (nowTo e) s t)"
    by (simp add: ProcessInstrument_def GetLastLoadedTime_def LoadCandleData_def)
next
  assume "t \<noteq> zeroTime \<and> \<not> ShouldUpdateData e t interval"
  then show "ProcessInstrument e body c s (ScanTime t :: 'q scan) interval = Inr (Some ([], None, s))"
    by (simp add: ProcessInstrument_def GetLastLoadedTime_def LoadCandleData_def)
next
  fix chunks r s'
  assume "from < to \<and> chunkLoop body chunkSize to s from = Some (chunks, r, s')"
  then show "chunks \<noteq> []" "fst (hd chunks) = from"
    using chunkLoop_first [of "from" to body chunkSize s chunks r s'] by simp_all
qed

theorem compute_start_witness:
  "StartDate \<lparr>StartDate = ''2024-01-01'', Limits = [''1day'' \<mapsto> 4], RateLimitPause = 0\<rparr> \<noteq> []
   \<and> (if ''2024-01-01'' = ''2024-01-01'' then Some (63839664000000000000 :: int) else None)
       = Some 63839664000000000000
   \<and> (63839664000000000000 :: int) \<noteq> zeroTime
   \<and> ShouldUpdateData
        \<lparr>nowSince = 63840441600000000000, nowStart = 63840441600000000000,
         nowTo = 63840441600000000000,
         Parse = (\<lambda>x. if x = ''2024-01-01'' then Some 63839664000000000000 else None),
         AddDate = (\<lambda>t y m d. t)\<rparr>
        63839664000000000000 ''CANDLE_INTERVAL_DAY''
   \<and> (63839664000000000000 :: int) < 63840441600000000000
   \<and> ProcessInstrument
        \<lparr>nowSince = 63840441600000000000, nowStart = 63840441600000000000,
         nowTo = 63840441600000000000,
         Parse = (\<lambda>x. if x = ''2024-01-01'' then Some 63839664000000000000 else None),
         AddDate = (\<lambda>t y m d. t)\<rparr>
        (\<lambda>s a b. (None :: unit option, s))
        \<lparr>StartDate = ''2024-01-01'', Limits = [''1day'' \<mapsto> 4], RateLimitPause = 0\<rparr>
        () (ScanTime 63839664000000000000 :: unit scan) ''CANDLE_INTERVAL_DAY''
      = Inr (Some ([(63839664000000000000, 63840009600000000000),
                    (63840009600000000000, 63840355200000000000),
                    (63840355200000000000, 63840441600000000000)], None, ()))
   \<and> GetStartDate
        \<lparr>nowSince = 63840441600000000000, nowStart = 63840441600000000000,
         nowTo = 63840441600000000000,
         Parse = (\<lambda>x. if x = ''2024-01-01'' then Some 63839664000000000000 else None),
         AddDate = (\<lambda>t y m d. t)\<rparr>
        \<lparr>StartDate = ''2024-01-01'', Limits = [''1day'' \<mapsto> 4], RateLimitPause = 0\<rparr>
      = 63839664000000000000"
proof -
  let ?e = "\<lparr>nowSince = 63840441600000000000, nowStart = 63840441600000000000,
         nowTo = 63840441600000000000,
         Parse = (\<lambda>x. if x = ''2024-01-01'' then Some (63839664000000000000 :: int) else None),
         AddDate = (\<lambda>(t :: int) (y :: int) (m :: int) (d :: int). t)\<rparr>"
  let ?c = "\<lparr>StartDate = ''2024-01-01'', Limits = [''1day'' \<mapsto> 4], RateLimitPause = 0\<rparr>"
  have su: "ShouldUpdateData ?e 63839664000000000000 ''CANDLE_INTERVAL_DAY''"
    by (simp add: ShouldUpdateData_def Sub_def GetThreshold_def eval_chunkSize)
  have z: "(63839664000000000000 :: int) \<noteq> zeroTime" by (simp add: zeroTime_def)
  from compute_start [of ?e "\<lambda>s a b. (None :: unit option, s)" ?c "()" "''CANDLE_INTERVAL_DAY''"
      63839664000000000000 63839664000000000000 63839664000000000000 63840441600000000000
      "chunkSizeFor ?c ''CANDLE_INTERVAL_DAY''", where ?'q = unit]
  show ?thesis using su z chunkLoop_example by simp
qed

section \<open>Properties of the partitioned store\<close>

lemmas eval_civil = monthStartOf_def monthEndOf_def DateFirst_def AddMonthFirst_def
  AddMinusSecond_def FormatSeconds_def daysIn_def isLeap_def inRange_def before_def civilFields_def
  inMonthOf_def inCreatedPartition_def partitionStmt_def partitionNameOf_def fmtD_def
  padZeros_def fmtNat.simps digitChar_def

lemmas eval_candles = candleLastSecond_def candleMidJanuary_def candleFebruary_def quote_def
  candleStmt_def ConvertMoneyValue_def fmtD09_def stripTrailingZeros.simps

lemmas eval_db = examplePool_def exampleRun_def Exec_def CreatePartition_def saveCandle_def
  SaveCandles_def isPartitionError_def russianNoPartition_def

lemma partitionStmt_january:
  "partitionStmt (CandleTime candleLastSecond) =
     CreatePartitionOf ''candles_2024_01''
       \<lparr>tYear = 2024, tMonth = 1, tDay = 1, tHour = 0, tMinute = 0, tSecond = 0, tNanosecond = 0\<rparr>
       \<lparr>tYear = 2024, tMonth = 1, tDay = 31, tHour = 23, tMinute = 59, tSecond = 59,
        tNanosecond = 0\<rparr>"
  by (simp add: eval_civil eval_candles)

lemma partitionStmt_mid_january:
  "partitionStmt (CandleTime candleMidJanuary) = partitionStmt (CandleTime candleLastSecond)"
  by (simp add: eval_civil eval_candles)

lemma partitionStmt_february:
  "partitionStmt (CandleTime candleFebruary) =
     CreatePartitionOf ''candles_2024_02''
       \<lparr>tYear = 2024, tMonth = 2, tDay = 1, tHour = 0, tMinute = 0, tSecond = 0, tNanosecond = 0\<rparr>
       \<lparr>tYear = 2024, tMonth = 2, tDay = 29, tHour = 23, tMinute = 59, tSecond = 59,
        tNanosecond = 0\<rparr>"
  by (simp add: eval_civil eval_candles)

lemma candleStmt_last_second:
  "candleStmt ''BBG004730N88'' candleLastSecond ''CANDLE_INTERVAL_1_MIN'' =
     UpsertCandle ''BBG004730N88''
       \<lparr>tYear = 2024, tMonth = 1, tDay = 31, tHour = 23, tMinute = 59, tSecond = 59,
        tNanosecond = 0\<rparr>
       ''272.27'' ''273'' ''272'' ''272.5'' 100 ''CANDLE_INTERVAL_1_MIN''"
  by (simp add: eval_candles fmtD_def padZeros_def fmtNat.simps digitChar_def)

lemma candleStmt_february:
  "candleStmt ''BBG004730N88'' candleFebruary ''CANDLE_INTERVAL_1_MIN'' =
     UpsertCandle ''BBG004730N88''
       \<lparr>tYear = 2024, tMonth = 2, tDay = 15, tHour = 10, tMinute = 0, tSecond = 0,
        tNanosecond = 0\<rparr>
       ''280'' ''281'' ''279'' ''280.5'' 300 ''CANDLE_INTERVAL_1_MIN''"
  by (simp add: eval_candles fmtD_def padZeros_def fmtNat.simps digitChar_def)

lemma SaveCandles_loop: "SaveCandles run p figi candles iv = saveCandlesLoop run figi iv p candles"
  by (cases candles) (simp_all add: SaveCandles_def)

lemma saveCandlesLoop_append:
  "saveCandlesLoop run figi iv p (pre @ xs) =
     (case saveCandlesLoop run figi iv p pre of
        (Some e, p') \<Rightarrow> (Some e, p')
      | (None, p') \<Rightarrow> saveCandlesLoop run figi iv p' xs)"
  by (induction pre arbitrary: p) (auto split: prod.splits option.splits)



lemma candleStmt_mid_january:
  "candleStmt ''BBG004730N88'' candleMidJanuary ''CANDLE_INTERVAL_1_MIN'' =
     UpsertCandle ''BBG004730N88''
       \<lparr>tYear = 2024, tMonth = 1, tDay = 15, tHour = 10, tMinute = 0, tSecond = 0,
        tNanosecond = 0\<rparr>
       ''270'' ''271'' ''269'' ''270.5'' 250 ''CANDLE_INTERVAL_1_MIN''"
  by (simp add: eval_candles fmtD_def padZeros_def fmtNat.simps digitChar_def)

lemma CandleTime_february:
  "CandleTime candleFebruary =
     \<lparr>tYear = 2024, tMonth = 2, tDay = 15, tHour = 10, tMinute = 0, tSecond = 0, tNanosecond = 0\<rparr>"
  by (simp add: candleFebruary_def)

lemma SaveCandles_february:
  "SaveCandles exampleRun examplePool ''BBG004730N88'' [candleFebruary] ''CANDLE_INTERVAL_1_MIN''
   = (None,
      \<lparr>conn = \<lparr>instruments = [''BBG004730N88''],
                partitions = [(''candles_2024_02'',
                  \<lparr>tYear = 2024, tMonth = 2, tDay = 1, tHour = 0, tMinute = 0, tSecond = 0,
                   tNanosecond = 0\<rparr>,
                  \<lparr>tYear = 2024, tMonth = 2, tDay = 29, tHour = 23, tMinute = 59, tSecond = 59,
                   tNanosecond = 0\<rparr>)]\<rparr>,
       issued = [candleStmt ''BBG004730N88'' candleFebruary ''CANDLE_INTERVAL_1_MIN'',
                 partitionStmt (CandleTime candleFebruary),
                 candleStmt ''BBG004730N88'' candleFebruary ''CANDLE_INTERVAL_1_MIN'']\<rparr>)"
  by (simp add: eval_db candleStmt_february partitionStmt_february inRange_def before_def
      civilFields_def)

subsection \<open>The range of a created partition\<close>

text \<open>
  Claim C3 asks that the partition created for a timestamp covers its whole calendar month,
  the final second included. \<open>CreatePartition\<close> sends the last second of the month,
  \<open>monthEnd\<close>, as the bound after \<open>TO\<close>, which PostgreSQL excludes. For the candle time
  2024-01-31 23:59:59 UTC the statement is \<open>candles_2024_01\<close> from 2024-01-01 00:00:00 to
  2024-01-31 23:59:59: the time is in its month and outside the partition created for it, and
  saving a candle of that time fails again after the partition has been created.
\<close>

theorem CreatePartition_misses_final_second:
  "partitionStmt (CandleTime candleLastSecond) =
     CreatePartitionOf ''candles_2024_01''
       \<lparr>tYear = 2024, tMonth = 1, tDay = 1, tHour = 0, tMinute = 0, tSecond = 0, tNanosecond = 0\<rparr>
       \<lparr>tYear = 2024, tMonth = 1, tDay = 31, tHour = 23, tMinute = 59, tSecond = 59,
        tNanosecond = 0\<rparr>
   \<and> inMonthOf (CandleTime candleLastSecond) (CandleTime candleLastSecond)
   \<and> \<not> inCreatedPartition (CandleTime candleLastSecond) (CandleTime candleLastSecond)
   \<and> fst (SaveCandles exampleRun examplePool ''BBG004730N88'' [candleLastSecond]
            ''CANDLE_INTERVAL_1_MIN'')
       = Some (Errorf InsertAfterPartitionFailed
                 (Some (PgError ''23514'' ''no partition of relation found for row'')))"
proof (intro conjI)
  show "partitionStmt (CandleTime candleLastSecond) =
     CreatePartitionOf ''candles_2024_01''
       \<lparr>tYear = 2024, tMonth = 1, tDay = 1, tHour = 0, tMinute = 0, tSecond = 0, tNanosecond = 0\<rparr>
       \<lparr>tYear = 2024, tMonth = 1, tDay = 31, tHour = 23, tMinute = 59, tSecond = 59,
        tNanosecond = 0\<rparr>"
    by (rule partitionStmt_january)
  show "inMonthOf (CandleTime candleLastSecond) (CandleTime candleLastSecond)"
    by (simp add: eval_civil eval_candles)
  show "\<not> inCreatedPartition (CandleTime candleLastSecond) (CandleTime candleLastSecond)"
    by (simp add: inCreatedPartition_def partitionStmt_january)
      (simp add: inRange_def before_def civilFields_def eval_candles)
  show "fst (SaveCandles exampleRun examplePool ''BBG004730N88'' [candleLastSecond]
            ''CANDLE_INTERVAL_1_MIN'')
       = Some (Errorf InsertAfterPartitionFailed
                 (Some (PgError ''23514'' ''no partition of relation found for row'')))"
    by (simp add: eval_db candleStmt_last_second partitionStmt_january inRange_def before_def
        civilFields_def)
qed

subsection \<open>Self-healing of a missing partition\<close>

text \<open>
  A candle of 2024-01-31 23:59:59 on a database without partitions: its insert fails for the
  missing partition, \<open>SaveCandles\<close> creates \<open>candles_2024_01\<close> and sends the insert again, and
  the partition it has created does not contain the time of the candle.
\<close>

theorem SaveCandles_partition_counterexample:
  "fst (Exec exampleRun examplePool
          (candleStmt ''BBG004730N88'' candleLastSecond ''CANDLE_INTERVAL_1_MIN''))
     = Some (PgError ''23514'' ''no partition of relation found for row'')
   \<and> isPartitionError ''23514'' ''no partition of relation found for row''
   \<and> issued (snd (SaveCandles exampleRun examplePool ''BBG004730N88'' [candleLastSecond]
                    ''CANDLE_INTERVAL_1_MIN''))
       = [candleStmt ''BBG004730N88'' candleLastSecond ''CANDLE_INTERVAL_1_MIN'',
          partitionStmt (CandleTime candleLastSecond),
          candleStmt ''BBG004730N88'' candleLastSecond ''CANDLE_INTERVAL_1_MIN'']
   \<and> \<not> inCreatedPartition (CandleTime candleLastSecond) (CandleTime candleLastSecond)"
proof (intro conjI)
  show "fst (Exec exampleRun examplePool
          (candleStmt ''BBG004730N88'' candleLastSecond ''CANDLE_INTERVAL_1_MIN''))
     = Some (PgError ''23514'' ''no partition of relation found for row'')"
    by (simp add: eval_db candleStmt_last_second)
  show "isPartitionError ''23514'' ''no partition of relation found for row''"
    by (simp add: isPartitionError_def)
  show "issued (snd (SaveCandles exampleRun examplePool ''BBG004730N88'' [candleLastSecond]
                    ''CANDLE_INTERVAL_1_MIN''))
       = [candleStmt ''BBG004730N88'' candleLastSecond ''CANDLE_INTERVAL_1_MIN'',
          partitionStmt (CandleTime candleLastSecond),
          candleStmt ''BBG004730N88'' candleLastSecond ''CANDLE_INTERVAL_1_MIN'']"
    by (simp add: eval_db candleStmt_last_second partitionStmt_january inRange_def before_def
        civilFields_def)
  show "\<not> inCreatedPartition (CandleTime candleLastSecond) (CandleTime candleLastSecond)"
    by (simp add: inCreatedPartition_def partitionStmt_january)
      (simp add: inRange_def before_def civilFields_def eval_candles)
qed



subsection \<open>A failed record and the rest of the batch\<close>

text \<open>
  A batch of two candles on a database without partitions. The first candle, of
  2024-01-31 23:59:59, fails again after its partition has been created, and \<open>SaveCandles\<close>
  returns that error; the statements sent are the three for the first candle, and the
  second candle, of 2024-01-15, which the new partition would hold, is never sent.
\<close>

theorem SaveCandles_batch_counterexample:
  "SaveCandles exampleRun examplePool ''BBG004730N88'' [candleLastSecond, candleMidJanuary]
     ''CANDLE_INTERVAL_1_MIN''
   = (Some (Errorf InsertAfterPartitionFailed
             (Some (PgError ''23514'' ''no partition of relation found for row''))),
      \<lparr>conn = \<lparr>instruments = [''BBG004730N88''],
                partitions = [(''candles_2024_01'',
                  \<lparr>tYear = 2024, tMonth = 1, tDay = 1, tHour = 0, tMinute = 0, tSecond = 0,
                   tNanosecond = 0\<rparr>,
                  \<lparr>tYear = 2024, tMonth = 1, tDay = 31, tHour = 23, tMinute = 59, tSecond = 59,
                   tNanosecond = 0\<rparr>)]\<rparr>,
       issued = [candleStmt ''BBG004730N88'' candleLastSecond ''CANDLE_INTERVAL_1_MIN'',
                 partitionStmt (CandleTime candleLastSecond),
                 candleStmt ''BBG004730N88'' candleLastSecond ''CANDLE_INTERVAL_1_MIN'']\<rparr>)"
  by (simp add: eval_db candleStmt_last_second partitionStmt_january inRange_def before_def
      civilFields_def)

text \<open>
  Claim C5, as amended. \<open>SaveCandles\<close> handles the records in order and stops at the first one
  that fails for good: when the records before it have been saved and the turn of the loop
  for it returns an error, \<open>SaveCandles\<close> returns that error and the pool as that turn left
  it, whatever records follow; nothing is sent for them.
\<close>

theorem SaveCandles_stops_at_failure:
  "SaveCandles run p figi pre iv = (None, p1) \<and> saveCandle run figi iv p1 candle = (Some err, p2)
     \<longrightarrow> SaveCandles run p figi (pre @ candle # rest) iv = (Some err, p2)"
  by (simp add: SaveCandles_loop saveCandlesLoop_append)

theorem SaveCandles_stops_at_failure_witness:
  "SaveCandles exampleRun examplePool ''UNKNOWN'' [] ''CANDLE_INTERVAL_1_MIN'' = (None, examplePool)
   \<and> saveCandle exampleRun ''UNKNOWN'' ''CANDLE_INTERVAL_1_MIN'' examplePool candleFebruary
       = (Some (Errorf InsertCandleFailed (Some (PgError ''23503'' ''violates foreign key constraint''))),
          \<lparr>conn = conn examplePool,
           issued = [candleStmt ''UNKNOWN'' candleFebruary ''CANDLE_INTERVAL_1_MIN'']\<rparr>)
   \<and> SaveCandles exampleRun examplePool ''UNKNOWN'' [candleFebruary, candleMidJanuary]
        ''CANDLE_INTERVAL_1_MIN''
       = (Some (Errorf InsertCandleFailed (Some (PgError ''23503'' ''violates foreign key constraint''))),
          \<lparr>conn = conn examplePool,
           issued = [candleStmt ''UNKNOWN'' candleFebruary ''CANDLE_INTERVAL_1_MIN'']\<rparr>)"
proof -
  have a: "SaveCandles exampleRun examplePool ''UNKNOWN'' [] ''CANDLE_INTERVAL_1_MIN'' = (None, examplePool)"
    by (simp add: SaveCandles_def)
  have b: "saveCandle exampleRun ''UNKNOWN'' ''CANDLE_INTERVAL_1_MIN'' examplePool candleFebruary
       = (Some (Errorf InsertCandleFailed (Some (PgError ''23503'' ''violates foreign key constraint''))),
          \<lparr>conn = conn examplePool,
           issued = [candleStmt ''UNKNOWN'' candleFebruary ''CANDLE_INTERVAL_1_MIN'']\<rparr>)"
    by (simp add: eval_db candleStmt_def)
  from SaveCandles_stops_at_failure [of exampleRun examplePool "''UNKNOWN''" "[]"
      "''CANDLE_INTERVAL_1_MIN''" examplePool candleFebruary _ _ "[candleMidJanuary]"] a b
  show ?thesis by simp
qed

section \<open>Properties of the reference data\<close>

lemma SaveDividend_result:
  "SaveDividend run p dividend =
     (Some (Errorf SaveDividendFailed (fst (run (dividendConn p) dividend))),
      \<lparr>dividendConn = snd (run (dividendConn p) dividend),
       dividendsSent = dividendsSent p @ [dividend]\<rparr>)"
  by (simp add: SaveDividend_def split: prod.splits)

lemma saveDividendsLoop_fails:
  "saveDividendsLoop run p (dividend # dividends) =
     (Some (Errorf SaveDividendFailed
              (Some (Errorf SaveDividendFailed (fst (run (dividendConn p) dividend))))),
      \<lparr>dividendConn = snd (run (dividendConn p) dividend),
       dividendsSent = dividendsSent p @ [dividend]\<rparr>)"
  by (simp add: SaveDividend_result)

lemma applySet_keeps:
  "map_of sets c = None \<Longrightarrow> applySet now existing excluded sets c = existing c"
  by (simp add: applySet_def)

lemma upsert_existing:
  "tbl figi = Some existing \<Longrightarrow>
     upsertByFigi tbl now figi excluded sets figi = Some (applySet now existing excluded sets)"
  by (simp add: upsertByFigi_def)

lemma upsert_other:
  "k \<noteq> figi \<Longrightarrow> upsertByFigi tbl now figi excluded sets k = tbl k"
  by (simp add: upsertByFigi_def split: option.splits)

subsection \<open>Dividends\<close>

text \<open>
  Claim C10. For every dividend and every answer of the database, \<open>SaveDividend\<close> returns an
  error that is not nil: it wraps the result of the upsert, nil or not. So, whenever the
  range is not skipped and \<open>LoadDividends\<close> gives a non-empty list, \<open>ProcessInstrumentDividends\<close>
  returns an error after the first dividend, which is the only one sent to the database: it
  does not reach its success path.
\<close>

theorem SaveDividend_always_errors:
  "fst (SaveDividend run p dividend)
     = Some (Errorf SaveDividendFailed (fst (run (dividendConn p) dividend)))
   \<and> fst (SaveDividend run p dividend) \<noteq> None
   \<and> (\<not> dividendStart e c scanned > nowTo e
        \<and> load (dividendStart e c scanned) (nowTo e) = Inr (dividend # dividends) \<longrightarrow>
        ProcessInstrumentDividends e c load run p scanned
          = (Some (Errorf SaveDividendFailed
                     (Some (Errorf SaveDividendFailed (fst (run (dividendConn p) dividend))))),
             \<lparr>dividendConn = snd (run (dividendConn p) dividend),
              dividendsSent = dividendsSent p @ [dividend]\<rparr>))"
proof (intro conjI impI)
  show "fst (SaveDividend run p dividend)
     = Some (Errorf SaveDividendFailed (fst (run (dividendConn p) dividend)))"
    by (simp add: SaveDividend_result)
  then show "fst (SaveDividend run p dividend) \<noteq> None" by simp
next
  assume "\<not> dividendStart e c scanned > nowTo e
        \<and> load (dividendStart e c scanned) (nowTo e) = Inr (dividend # dividends)"
  then show "ProcessInstrumentDividends e c load run p scanned
          = (Some (Errorf SaveDividendFailed
                     (Some (Errorf SaveDividendFailed (fst (run (dividendConn p) dividend))))),
             \<lparr>dividendConn = snd (run (dividendConn p) dividend),
              dividendsSent = dividendsSent p @ [dividend]\<rparr>)"
    by (simp add: ProcessInstrumentDividends_def Let_def saveDividendsLoop_fails
        del: saveDividendsLoop.simps)
qed

theorem SaveDividend_always_errors_witness:
  "\<not> dividendStart
        \<lparr>nowSince = 63840441600000000000, nowStart = 63840441600000000000,
         nowTo = 63840441600000000000,
         Parse = (\<lambda>x. if x = ''2024-01-01'' then Some 63839664000000000000 else None),
         AddDate = (\<lambda>t y m d. t)\<rparr>
        \<lparr>StartDate = ''2024-01-01'', Limits = Map.empty, RateLimitPause = 0\<rparr>
        (ScanNull :: unit scan) > 63840441600000000000
   \<and> ProcessInstrumentDividends
        \<lparr>nowSince = 63840441600000000000, nowStart = 63840441600000000000,
         nowTo = 63840441600000000000,
         Parse = (\<lambda>x. if x = ''2024-01-01'' then Some 63839664000000000000 else None),
         AddDate = (\<lambda>t y m d. t)\<rparr>
        \<lparr>StartDate = ''2024-01-01'', Limits = Map.empty, RateLimitPause = 0\<rparr>
        (\<lambda>a b. Inr [\<lparr>DividendFigi = ''BBG004730N88'', PaymentDate = 63840009600000000000,
                       DeclaredDate = None, Amount = ''25.5'', DividendCurrency = ''rub'',
                       YieldPercent = None\<rparr>])
        (\<lambda>db d. (None, d # db))
        \<lparr>dividendConn = [], dividendsSent = []\<rparr>
        (ScanNull :: unit scan)
      = (Some (Errorf SaveDividendFailed (Some (Errorf SaveDividendFailed None))),
         \<lparr>dividendConn = [\<lparr>DividendFigi = ''BBG004730N88'', PaymentDate = 63840009600000000000,
                             DeclaredDate = None, Amount = ''25.5'', DividendCurrency = ''rub'',
                             YieldPercent = None\<rparr>],
          dividendsSent = [\<lparr>DividendFigi = ''BBG004730N88'', PaymentDate = 63840009600000000000,
                             DeclaredDate = None, Amount = ''25.5'', DividendCurrency = ''rub'',
                             YieldPercent = None\<rparr>]\<rparr>)"
proof -
  let ?e = "\<lparr>nowSince = 63840441600000000000, nowStart = 63840441600000000000,
         nowTo = 63840441600000000000,
         Parse = (\<lambda>x. if x = ''2024-01-01'' then Some (63839664000000000000 :: int) else None),
         AddDate = (\<lambda>(t :: int) (y :: int) (m :: int) (d :: int). t)\<rparr>"
  let ?c = "\<lparr>StartDate = ''2024-01-01'', Limits = Map.empty, RateLimitPause = 0\<rparr>"
  let ?d = "\<lparr>DividendFigi = ''BBG004730N88'', PaymentDate = 63840009600000000000,
             DeclaredDate = None, Amount = ''25.5'', DividendCurrency = ''rub'',
             YieldPercent = None\<rparr>"
  have s: "dividendStart ?e ?c (ScanNull :: unit scan) = 63839664000000000000"
    by (simp add: dividendStart_def GetLastDividendDate_def GetStartDate_def)
  from SaveDividend_always_errors [of "\<lambda>db d. (None, d # db)"
      "\<lparr>dividendConn = [], dividendsSent = []\<rparr>" ?d ?e ?c "ScanNull :: unit scan"
      "\<lambda>a b. Inr [?d]" "[]"]
  show ?thesis by (simp add: s)
qed

subsection \<open>The enabled flag\<close>

text \<open>
  Claim C6. For an instrument that has a row in the table, either \<open>SaveInstrument\<close> leaves a
  row for it whose \<open>enabled\<close> is that of the row before, whatever \<open>Enabled\<close> the incoming
  record carries and whether or not the database accepts the statement; when it accepts
  it, the metadata columns and \<open>updated_at\<close> have the incoming values. An instrument enabled by
  an operator is thus still enabled after a new synchronisation.
\<close>

theorem SaveInstrument_keeps_enabled:
  "(tbl (Figi i) = Some existing \<longrightarrow>
      (\<exists>stored. snd (SaveInstrument tbl now failure i) (Figi i) = Some stored
         \<and> stored ''enabled'' = existing ''enabled''
         \<and> (failure = None \<longrightarrow>
              stored ''ticker'' = Some (SqlText (Ticker i))
              \<and> stored ''name'' = Some (SqlText (Name i))
              \<and> stored ''instrument_type'' = Some (SqlText (InstrumentType i))
              \<and> stored ''currency'' = Some (SqlText (Currency i))
              \<and> stored ''lot_size'' = Some (SqlInt (LotSize i))
              \<and> stored ''min_price_increment'' = Some (SqlFloat (MinPriceIncrement i))
              \<and> stored ''trading_status'' = Some (SqlText (TradingStatus i))
              \<and> stored ''updated_at'' = Some (SqlTime now))))
   \<and> (tbl (Figi j) = Some existing \<longrightarrow>
      (\<exists>stored. snd (SaveInstrumentExt tbl now failure j) (Figi j) = Some stored
         \<and> stored ''enabled'' = existing ''enabled''
         \<and> (failure = None \<longrightarrow>
              stored ''ticker'' = Some (SqlText (Ticker j))
              \<and> stored ''name'' = Some (SqlText (Name j))
              \<and> stored ''instrument_type'' = Some (SqlText (InstrumentType j))
              \<and> stored ''currency'' = Some (SqlText (Currency j))
              \<and> stored ''lot_size'' = Some (SqlInt (LotSize j))
              \<and> stored ''min_price_increment'' = Some (SqlFloat (MinPriceIncrement j))
              \<and> stored ''trading_status'' = Some (SqlText (TradingStatus j))
              \<and> stored ''isin'' = Some (SqlText (Isin j))
              \<and> stored ''short_enabled_flag'' = Some (SqlBool (ShortEnabledFlag j))
              \<and> stored ''ipo_date'' = Some (SqlTime (IpoDate j))
              \<and> stored ''issue_size'' = Some (SqlInt (IssueSize j))
              \<and> stored ''sector'' = Some (SqlText (Sector j))
              \<and> stored ''real_exchange'' = Some (SqlText (RealExchange j))
              \<and> stored ''first_1min_candle_date'' = Some (SqlTime (First1MinCandleDate j))
              \<and> stored ''first_1day_candle_date'' = Some (SqlTime (First1DayCandleDate j))
              \<and> stored ''data_source_id'' = Some (SqlInt (DataSourceID j))
              \<and> stored ''updated_at'' = Some (SqlTime now))))"
proof (intro conjI impI)
  assume t: "tbl (Figi i) = Some existing"
  show "\<exists>stored. snd (SaveInstrument tbl now failure i) (Figi i) = Some stored
         \<and> stored ''enabled'' = existing ''enabled''
         \<and> (failure = None \<longrightarrow>
              stored ''ticker'' = Some (SqlText (Ticker i))
              \<and> stored ''name'' = Some (SqlText (Name i))
              \<and> stored ''instrument_type'' = Some (SqlText (InstrumentType i))
              \<and> stored ''currency'' = Some (SqlText (Currency i))
              \<and> stored ''lot_size'' = Some (SqlInt (LotSize i))
              \<and> stored ''min_price_increment'' = Some (SqlFloat (MinPriceIncrement i))
              \<and> stored ''trading_status'' = Some (SqlText (TradingStatus i))
              \<and> stored ''updated_at'' = Some (SqlTime now))"
  proof (cases failure)
    case (Some err)
    with t show ?thesis by (simp add: SaveInstrument_def)
  next
    case None
    with t show ?thesis
      by (simp add: SaveInstrument_def upsert_existing)
        (simp add: applySet_def proposedRow_def baseSets_def baseColumns_def)
  qed
next
  assume t: "tbl (Figi j) = Some existing"
  show "\<exists>stored. snd (SaveInstrumentExt tbl now failure j) (Figi j) = Some stored
         \<and> stored ''enabled'' = existing ''enabled''
         \<and> (failure = None \<longrightarrow>
              stored ''ticker'' = Some (SqlText (Ticker j))
              \<and> stored ''name'' = Some (SqlText (Name j))
              \<and> stored ''instrument_type'' = Some (SqlText (InstrumentType j))
              \<and> stored ''currency'' = Some (SqlText (Currency j))
              \<and> stored ''lot_size'' = Some (SqlInt (LotSize j))
              \<and> stored ''min_price_increment'' = Some (SqlFloat (MinPriceIncrement j))
              \<and> stored ''trading_status'' = Some (SqlText (TradingStatus j))
              \<and> stored ''isin'' = Some (SqlText (Isin j))
              \<and> stored ''short_enabled_flag'' = Some (SqlBool (ShortEnabledFlag j))
              \<and> stored ''ipo_date'' = Some (SqlTime (IpoDate j))
              \<and> stored ''issue_size'' = Some (SqlInt (IssueSize j))
              \<and> stored ''sector'' = Some (SqlText (Sector j))
              \<and> stored ''real_exchange'' = Some (SqlText (RealExchange j))
              \<and> stored ''first_1min_candle_date'' = Some (SqlTime (First1MinCandleDate j))
              \<and> stored ''first_1day_candle_date'' = Some (SqlTime (First1DayCandleDate j))
              \<and> stored ''data_source_id'' = Some (SqlInt (DataSourceID j))
              \<and> stored ''updated_at'' = Some (SqlTime now))"
  proof (cases failure)
    case (Some err)
    with t show ?thesis by (simp add: SaveInstrumentExt_def)
  next
    case None
    with t show ?thesis
      by (simp add: SaveInstrumentExt_def upsert_existing)
        (simp add: applySet_def proposedRow_def baseSets_def baseColumns_def)
  qed
qed

theorem SaveInstrument_keeps_enabled_witness:
  "[''BBG004730N88'' \<mapsto> storedRow] (Figi incoming) = Some storedRow
   \<and> [''BBG004730N88'' \<mapsto> storedRow] (Figi incomingExt) = Some storedRow
   \<and> storedRow ''enabled'' = Some (SqlBool True)
   \<and> Enabled incoming = False \<and> Enabled incomingExt = False
   \<and> (\<exists>stored.
         snd (SaveInstrument [''BBG004730N88'' \<mapsto> storedRow] 63840441600000000000 None incoming)
           ''BBG004730N88'' = Some stored
         \<and> stored ''enabled'' = Some (SqlBool True)
         \<and> stored ''name'' = Some (SqlText ''Sberbank of Russia''))
   \<and> (\<exists>stored.
         snd (SaveInstrumentExt [''BBG004730N88'' \<mapsto> storedRow] 63840441600000000000 None
                incomingExt) ''BBG004730N88'' = Some stored
         \<and> stored ''enabled'' = Some (SqlBool True)
         \<and> stored ''isin'' = Some (SqlText ''RU0009029540''))"
proof -
  have f: "Figi incoming = ''BBG004730N88''" "Figi incomingExt = ''BBG004730N88''"
    "Enabled incoming = False" "Enabled incomingExt = False"
    "Name incoming = ''Sberbank of Russia''" "Isin incomingExt = ''RU0009029540''"
    by (simp_all add: incoming_def incomingExt_def)
  have e: "storedRow ''enabled'' = Some (SqlBool True)"
    by (simp add: storedRow_def proposedRow_def)
  from SaveInstrument_keeps_enabled [of "[''BBG004730N88'' \<mapsto> storedRow]" incoming storedRow
      63840441600000000000 None incomingExt]
  show ?thesis unfolding f e by auto
qed

end
